theory Spec2Isabelle
  imports Complex_Main
begin

section \<open>Python's Decimal, as the payroll code uses it\<close>

text \<open>
  The money paths of \<^verbatim>\<open>backend/services/tax_service.py\<close> and
  \<^verbatim>\<open>backend/services/payroll_service.py\<close> compute with \<^verbatim>\<open>decimal.Decimal\<close>
  under the default context, which the repository never changes: precision 28,
  rounding \<^verbatim>\<open>ROUND_HALF_EVEN\<close>, \<^verbatim>\<open>InvalidOperation\<close> and \<^verbatim>\<open>DivisionByZero\<close>
  trapped (raised).

  A finite Decimal is a signed coefficient and an exponent; its value is
  \<open>coeff * 10 ^ expo\<close>. The sign of a zero is not tracked (Python compares
  \<^verbatim>\<open>Decimal('-0.00') == Decimal('0.00')\<close> as equal), and the exponent limits
  \<^verbatim>\<open>Emin = -999999\<close>, \<^verbatim>\<open>Emax = 999999\<close> are left out. NaN and infinities do
  not arise from numeric database columns and literals.
\<close>

datatype decimal = Dec (coeff: int) (expo: int)

datatype py_error =
    ValueError string
  | TypeError
  | InvalidOperation
  | DivisionByZero
  | MultipleResultsFound
  | NameError string
  | HTTPException nat string

definition prec :: nat where
  "prec = 28"

text \<open>\<^verbatim>\<open>len(self._int)\<close>: the number of decimal digits of a non-negative coefficient.\<close>

function ndigits :: "int \<Rightarrow> nat" where
  "ndigits n = (if n < 10 then 1 else Suc (ndigits (n div 10)))"
  by pat_completeness auto
termination
  by (relation "measure nat") auto

declare ndigits.simps [simp del]

text \<open>
  \<open>round_half_even n d\<close> is \<open>n / d\<close> (for \<open>d > 0\<close>) rounded to the nearest
  integer, a tie going to the even neighbour; like \<^verbatim>\<open>Decimal._round_half_even\<close>
  it works on the magnitude and keeps the sign.
\<close>

definition round_half_even :: "int \<Rightarrow> int \<Rightarrow> int" where
  "round_half_even n d =
     (let q = \<bar>n\<bar> div d; r = \<bar>n\<bar> mod d;
          m = (if 2 * r < d then q else if d < 2 * r then q + 1
               else if even q then q else q + 1)
      in sgn n * m)"

text \<open>
  \<^verbatim>\<open>Decimal._fix(context)\<close>: a coefficient of more than \<open>prec\<close> digits is rounded
  to \<open>prec\<close> digits; when the rounding carries into a further digit, the last
  digit (a zero) is dropped and the exponent raised.
\<close>

definition fix_ctx :: "decimal \<Rightarrow> decimal" where
  "fix_ctx d =
     (let n = ndigits \<bar>coeff d\<bar> in
      if n \<le> prec then d
      else
        let k = n - prec;
            c = round_half_even (coeff d) (10 ^ k)
        in if prec < ndigits \<bar>c\<bar> then Dec (c div 10) (expo d + int k + 1)
           else Dec c (expo d + int k))"

text \<open>\<^verbatim>\<open>a * b\<close>: the exact product, then the context rounding.\<close>

definition dmul :: "decimal \<Rightarrow> decimal \<Rightarrow> decimal" where
  "dmul a b = fix_ctx (Dec (coeff a * coeff b) (expo a + expo b))"

text \<open>\<^verbatim>\<open>a + b\<close>: the exact sum at the smaller exponent, then the context rounding.\<close>

definition dadd :: "decimal \<Rightarrow> decimal \<Rightarrow> decimal" where
  "dadd a b =
     (let e = min (expo a) (expo b)
      in fix_ctx (Dec (coeff a * 10 ^ nat (expo a - e) + coeff b * 10 ^ nat (expo b - e)) e))"

definition dneg :: "decimal \<Rightarrow> decimal" where
  "dneg a = Dec (- coeff a) (expo a)"

text \<open>\<^verbatim>\<open>a - b\<close> is \<^verbatim>\<open>a.__add__(b.copy_negate())\<close>.\<close>

definition dsub :: "decimal \<Rightarrow> decimal \<Rightarrow> decimal" where
  "dsub a b = dadd a (dneg b)"

text \<open>\<^verbatim>\<open>a < b\<close> compares the values.\<close>

definition dless :: "decimal \<Rightarrow> decimal \<Rightarrow> bool" where
  "dless a b =
     (let e = min (expo a) (expo b)
      in coeff a * 10 ^ nat (expo a - e) < coeff b * 10 ^ nat (expo b - e))"

text \<open>
  The builtin \<^verbatim>\<open>min(a, b)\<close> and \<^verbatim>\<open>max(a, b)\<close> return the first argument unless the
  second is strictly smaller (larger).
\<close>

definition py_min :: "decimal \<Rightarrow> decimal \<Rightarrow> decimal" where
  "py_min a b = (if dless b a then b else a)"

definition py_max :: "decimal \<Rightarrow> decimal \<Rightarrow> decimal" where
  "py_max a b = (if dless a b then b else a)"

text \<open>
  \<^verbatim>\<open>Decimal.__truediv__\<close>: the quotient is computed to \<open>prec + 1\<close> digits with a
  sticky last digit when the division is inexact, an exact quotient is brought
  as close to the ideal exponent as its trailing zeros allow, and the context
  rounding follows.
\<close>

function strip_zeros :: "int \<Rightarrow> int \<Rightarrow> int \<Rightarrow> int \<times> int" where
  "strip_zeros c e ideal =
     (if e < ideal \<and> c mod 10 = 0 then strip_zeros (c div 10) (e + 1) ideal else (c, e))"
  by pat_completeness auto
termination
  by (relation "measure (\<lambda>(c, e, ideal). nat (ideal - e))") auto

declare strip_zeros.simps [simp del]

definition ddiv :: "decimal \<Rightarrow> decimal \<Rightarrow> py_error + decimal" where
  "ddiv a b =
     (if coeff b = 0 then Inl (if coeff a = 0 then InvalidOperation else DivisionByZero)
      else if coeff a = 0 then Inr (fix_ctx (Dec 0 (expo a - expo b)))
      else
        let sign = sgn (coeff a) * sgn (coeff b);
            shift = int (ndigits \<bar>coeff b\<bar>) - int (ndigits \<bar>coeff a\<bar>) + int prec + 1;
            e = expo a - expo b - shift;
            num = (if 0 \<le> shift then \<bar>coeff a\<bar> * 10 ^ nat shift else \<bar>coeff a\<bar>);
            den = (if 0 \<le> shift then \<bar>coeff b\<bar> else \<bar>coeff b\<bar> * 10 ^ nat (- shift));
            q = num div den;
            r = num mod den;
            (c, e') = (if r \<noteq> 0 then (if q mod 5 = 0 then q + 1 else q, e)
                       else strip_zeros q e (expo a - expo b))
        in Inr (fix_ctx (Dec (sign * c) e')))"

text \<open>
  \<^verbatim>\<open>Decimal._rescale(exp, ROUND_HALF_EVEN)\<close> and \<^verbatim>\<open>Decimal.quantize(q)\<close>: the
  value at the exponent of \<open>q\<close>, rounded half-even when digits are dropped;
  \<^verbatim>\<open>InvalidOperation\<close> is raised when the result would need more than \<open>prec\<close>
  digits.
\<close>

definition rescale :: "decimal \<Rightarrow> int \<Rightarrow> decimal" where
  "rescale d e =
     (if e \<le> expo d then Dec (coeff d * 10 ^ nat (expo d - e)) e
      else Dec (round_half_even (coeff d) (10 ^ nat (e - expo d))) e)"

definition quantize :: "decimal \<Rightarrow> decimal \<Rightarrow> py_error + decimal" where
  "quantize d q =
     (if coeff d = 0 then Inr (Dec 0 (expo q))
      else if int prec < expo d + int (ndigits \<bar>coeff d\<bar>) - 1 - expo q + 1 then Inl InvalidOperation
      else
        let ans = rescale d (expo q)
        in if prec < ndigits \<bar>coeff ans\<bar> then Inl InvalidOperation else Inr ans)"

text \<open>
  What a \<^verbatim>\<open>DECIMAL(p, s)\<close> column gives back for a Decimal written to it. The
  application runs on MySQL (\<^verbatim>\<open>config.py\<close>: \<^verbatim>\<open>mysql+aiomysql\<close>), which stores an
  exact value at \<open>s\<close> decimals, rounding half away from zero, and returns it
  with exactly \<open>s\<close> decimals. The precision \<open>p\<close> bounds the magnitude; what the
  server does with a value outside the range depends on its SQL mode and is
  left out: the amounts are taken to lie inside the range of their columns.
\<close>

definition round_half_up :: "int \<Rightarrow> int \<Rightarrow> int" where
  "round_half_up n d =
     (let q = \<bar>n\<bar> div d; r = \<bar>n\<bar> mod d
      in sgn n * (if 2 * r < d then q else q + 1))"

definition column :: "nat \<Rightarrow> decimal \<Rightarrow> decimal" where
  "column s x =
     (if - int s \<le> expo x then Dec (coeff x * 10 ^ nat (expo x + int s)) (- int s)
      else Dec (round_half_up (coeff x) (10 ^ nat (- int s - expo x))) (- int s))"

text \<open>The value of a Decimal, for stating what the operations compute.\<close>

definition dval :: "decimal \<Rightarrow> rat" where
  "dval d = of_int (coeff d) * 10 powi (expo d)"

text \<open>
  For a Decimal with at most \<open>s\<close> decimals (\<open>- s \<le> expo d\<close>), its value in
  units of \<open>10 ^ - s\<close>.
\<close>

definition scaled :: "int \<Rightarrow> decimal \<Rightarrow> int" where
  "scaled s d = coeff d * 10 ^ nat (expo d + s)"



section \<open>The tax calculator: \<^verbatim>\<open>TaxService.calculate_taxes\<close>\<close>

text \<open>
  The tax configuration row (\<^verbatim>\<open>orm_models.TaxConfiguration\<close>). Rows are created
  through the schema \<^verbatim>\<open>TaxConfigurationCreate\<close>, which gives every rate a Decimal.
\<close>

record TaxConfiguration =
  tc_id :: int
  tc_org_id :: int
  federal_tax_rate :: decimal
  state_tax_rate :: decimal
  social_security_rate :: decimal
  medicare_rate :: decimal
  unemployment_rate :: decimal
  tc_is_active :: bool

text \<open>The dictionary that \<^verbatim>\<open>calculate_taxes\<close> returns.\<close>

record tax_calculations =
  tx_federal_tax :: decimal
  tx_state_tax :: decimal
  tx_social_security :: decimal
  tx_medicare :: decimal
  tx_total_deductions :: decimal
  tx_net_pay :: decimal

text \<open>
  The six values before the final \<^verbatim>\<open>quantize\<close> calls (lines 14 to 37 of
  \<^verbatim>\<open>tax_service.py\<close>), in the order federal, state, social security, medicare,
  total deductions, net pay. The \<^verbatim>\<open>employee\<close> argument of the source is unused.
\<close>

definition unrounded_taxes ::
  "decimal \<Rightarrow> TaxConfiguration \<Rightarrow> decimal \<times> decimal \<times> decimal \<times> decimal \<times> decimal \<times> decimal" where
  "unrounded_taxes gross_pay tax_config =
     (let federal_tax = dmul gross_pay (federal_tax_rate tax_config);
          state_tax = dmul gross_pay (state_tax_rate tax_config);
          social_security_wage_base = Dec 160200 0;
          social_security =
            dmul (py_min gross_pay social_security_wage_base) (social_security_rate tax_config);
          medicare0 = dmul gross_pay (medicare_rate tax_config);
          medicare_threshold = Dec 200000 0;
          medicare =
            (if dless medicare_threshold gross_pay
             then dadd medicare0 (dmul (dsub gross_pay medicare_threshold) (Dec 9 (- 3)))
             else medicare0);
          total_deductions = dadd (dadd (dadd federal_tax state_tax) social_security) medicare;
          net_pay = dsub gross_pay total_deductions
      in (federal_tax, state_tax, social_security, medicare, total_deductions, net_pay))"

definition cent :: decimal where
  "cent = Dec 1 (- 2)"

text \<open>Sequencing of calls that may raise: the first error is the result.\<close>

definition and_then :: "'e + 'a \<Rightarrow> ('a \<Rightarrow> 'e + 'b) \<Rightarrow> 'e + 'b" where
  "and_then r f = (case r of Inl err \<Rightarrow> Inl err | Inr x \<Rightarrow> f x)"

definition calculate_taxes :: "decimal \<Rightarrow> TaxConfiguration \<Rightarrow> py_error + tax_calculations" where
  "calculate_taxes gross_pay tax_config =
     (case unrounded_taxes gross_pay tax_config of
        (federal_tax, state_tax, social_security, medicare, total_deductions, net_pay) \<Rightarrow>
          and_then (quantize federal_tax cent) (\<lambda>f.
          and_then (quantize state_tax cent) (\<lambda>s.
          and_then (quantize social_security cent) (\<lambda>ss.
          and_then (quantize medicare cent) (\<lambda>m.
          and_then (quantize total_deductions cent) (\<lambda>t.
          and_then (quantize net_pay cent) (\<lambda>n.
            Inr \<lparr>tx_federal_tax = f, tx_state_tax = s, tx_social_security = ss,
                 tx_medicare = m, tx_total_deductions = t, tx_net_pay = n\<rparr>)))))))"

definition reference_rates :: TaxConfiguration where
  "reference_rates =
     \<lparr>tc_id = 1, tc_org_id = 1,
      federal_tax_rate = Dec 22 (- 2), state_tax_rate = Dec 5 (- 2),
      social_security_rate = Dec 62 (- 3), medicare_rate = Dec 145 (- 4),
      unemployment_rate = Dec 6 (- 3), tc_is_active = True\<rparr>"

section \<open>The data model: \<^verbatim>\<open>backend/orm_models.py\<close>\<close>

text \<open>
  A \<^verbatim>\<open>datetime\<close> is an instant, counted in microseconds; the \<^verbatim>\<open>days\<close> attribute
  of a difference of two instants is the floor of the difference in days.
\<close>

type_synonym datetime = int

definition timedelta_days :: "datetime \<Rightarrow> datetime \<Rightarrow> int" where
  "timedelta_days a b = (a - b) div 86400000000"

datatype SalaryType = HOURLY | FIXED

datatype TimesheetStatus = TS_PENDING | TS_APPROVED | TS_REJECTED

datatype PayrollStatus = PENDING | PROCESSING | COMPLETED | FAILED

text \<open>
  \<^verbatim>\<open>hourly_rate\<close> and \<^verbatim>\<open>bank_account_id\<close> are nullable columns; \<^verbatim>\<open>base_salary\<close>
  is not.
\<close>

record Employee =
  emp_id :: int
  cognito_sub :: string
  emp_org_id :: int
  first_name :: string
  last_name :: string
  salary_type :: SalaryType
  base_salary :: decimal
  hourly_rate :: "decimal option"
  bank_account_id :: "string option"
  emp_is_active :: bool

record Timesheet =
  ts_id :: int
  ts_employee_id :: int
  week_start_date :: datetime
  week_end_date :: datetime
  monday_hours :: decimal
  tuesday_hours :: decimal
  wednesday_hours :: decimal
  thursday_hours :: decimal
  friday_hours :: decimal
  saturday_hours :: decimal
  sunday_hours :: decimal
  total_hours :: decimal
  overtime_hours :: decimal
  ts_status :: TimesheetStatus

record PayrollRun =
  run_id :: int
  run_org_id :: int
  pay_period_start :: datetime
  pay_period_end :: datetime
  pay_date :: datetime
  run_status :: PayrollStatus
  total_gross_pay :: decimal
  total_net_pay :: decimal
  total_taxes :: decimal
  processed_by :: "int option"
  processed_at :: "datetime option"

text \<open>
  \<^verbatim>\<open>payment_status\<close> is kept as the string the code assigns to it (the column
  default is \<^verbatim>\<open>pending\<close>).
\<close>

record Payslip =
  ps_id :: int
  ps_employee_id :: int
  payroll_run_id :: int
  ps_pay_period_start :: datetime
  ps_pay_period_end :: datetime
  ps_pay_date :: datetime
  regular_hours :: decimal
  ps_overtime_hours :: decimal
  regular_pay :: decimal
  overtime_pay :: decimal
  gross_pay :: decimal
  federal_tax :: decimal
  state_tax :: decimal
  social_security :: decimal
  medicare :: decimal
  total_deductions :: decimal
  net_pay :: decimal
  payment_status :: string
  payment_method :: "string option"
  payment_reference :: "string option"
  pdf_url :: "string option"
  pdf_generated_at :: "datetime option"

record BankAccount =
  ba_employee_id :: int
  is_verified :: bool

section \<open>Persistence and the external collaborators\<close>

text \<open>
  The database session is a store of rows; the tables are lists in insertion
  order. A refresh after a commit reads the row back: it has the primary key
  the database assigned, and its \<^verbatim>\<open>DECIMAL\<close> columns hold the values as the
  columns store them. The commits that write values computed by the code go
  through; the commit that writes the result of the payment service into a
  payslip (line 236 of \<^verbatim>\<open>payroll_service.py\<close>) can be rejected, see
  \<open>payment_commit_fails\<close> below.
\<close>

record database =
  employees :: "Employee list"
  timesheets :: "Timesheet list"
  tax_configurations :: "TaxConfiguration list"
  payroll_runs :: "PayrollRun list"
  payslips :: "Payslip list"
  bank_accounts :: "BankAccount list"

text \<open>\<^verbatim>\<open>Result.scalar_one_or_none()\<close> raises when the query has more than one row.\<close>

definition scalar_one_or_none :: "'a list \<Rightarrow> py_error + 'a option" where
  "scalar_one_or_none rows =
     (case rows of [] \<Rightarrow> Inr None | [x] \<Rightarrow> Inr (Some x) | _ \<Rightarrow> Inl MultipleResultsFound)"

text \<open>An autoincrement primary key: larger than every key of the table.\<close>

definition next_id :: "int list \<Rightarrow> int" where
  "next_id ids = fold max ids 0 + 1"

definition commit_run :: "database \<Rightarrow> PayrollRun \<Rightarrow> database" where
  "commit_run d r =
     d\<lparr>payroll_runs := map (\<lambda>x. if run_id x = run_id r then r else x) (payroll_runs d)\<rparr>"

text \<open>
  The amounts of a payslip as its columns hold them: \<^verbatim>\<open>DECIMAL(5, 2)\<close> for the
  hours, \<^verbatim>\<open>DECIMAL(8, 2)\<close> for the four taxes and \<^verbatim>\<open>DECIMAL(10, 2)\<close> for the
  other amounts.
\<close>

definition payslip_columns :: "Payslip \<Rightarrow> Payslip" where
  "payslip_columns p =
     p\<lparr>regular_hours := column 2 (regular_hours p),
       ps_overtime_hours := column 2 (ps_overtime_hours p),
       regular_pay := column 2 (regular_pay p),
       overtime_pay := column 2 (overtime_pay p),
       gross_pay := column 2 (gross_pay p),
       federal_tax := column 2 (federal_tax p),
       state_tax := column 2 (state_tax p),
       social_security := column 2 (social_security p),
       medicare := column 2 (medicare p),
       total_deductions := column 2 (total_deductions p),
       net_pay := column 2 (net_pay p)\<rparr>"

text \<open>
  \<^verbatim>\<open>db.add(payslip)\<close>, \<^verbatim>\<open>await db.commit()\<close>, \<^verbatim>\<open>await db.refresh(payslip)\<close>
  (lines 188 to 190): the row is written, and the object the caller goes on
  with is the row read back.
\<close>

definition add_payslip :: "database \<Rightarrow> Payslip \<Rightarrow> database \<times> Payslip" where
  "add_payslip d p =
     (let p' = (payslip_columns p)\<lparr>ps_id := next_id (map ps_id (payslips d))\<rparr>
      in (d\<lparr>payslips := payslips d @ [p']\<rparr>, p'))"

definition commit_payslip :: "database \<Rightarrow> Payslip \<Rightarrow> database" where
  "commit_payslip d p =
     d\<lparr>payslips := map (\<lambda>x. if ps_id x = ps_id p then p else x) (payslips d)\<rparr>"

text \<open>
  What lies outside the repository: the clock, the PDF renderer with its
  upload, the three Plaid calls, and the database where it can refuse what the
  code writes. \<open>None\<close> stands for a call that raises. Sending the notification
  mail has no effect on the state and is left out.

  \<open>payment_commit_fails w p\<close> says that the commit of line 236, which writes
  the row \<open>p\<close> with the method, the reference and the status that the payment
  service returned, raises. A commit that raises leaves the table as it was.
\<close>

record world =
  utcnow :: datetime
  strftime :: "datetime \<Rightarrow> string"
  pdf_service_generate_payslip_pdf :: "Payslip \<Rightarrow> Employee \<Rightarrow> string option"
  plaid_create_payment_recipient :: "string \<Rightarrow> string option"
  plaid_create_payment :: "string \<Rightarrow> string \<Rightarrow> decimal \<Rightarrow> string option"
  plaid_get_payment_status :: "string \<Rightarrow> (string \<times> string) option"
  payment_commit_fails :: "Payslip \<Rightarrow> bool"

section \<open>\<^verbatim>\<open>PaymentService.send_payment_via_plaid\<close>\<close>

text \<open>
  The dictionary the payment service returns; \<open>None\<close> is a key that is absent
  or holds \<^verbatim>\<open>None\<close> (the caller reads both with \<^verbatim>\<open>dict.get\<close>).
\<close>

record payment_result =
  pr_method :: string
  pr_payment_id :: "string option"
  pr_status :: string
  pr_reference :: "string option"

definition payment_failed :: payment_result where
  "payment_failed =
     \<lparr>pr_method = ''plaid'', pr_payment_id = None, pr_status = ''failed'', pr_reference = None\<rparr>"

text \<open>
  The whole body is inside \<^verbatim>\<open>try ... except Exception\<close>: whatever raises inside
  (a missing employee, no verified bank account or several, a Plaid call) is
  logged with \<^verbatim>\<open>logger.error\<close> and reported through the returned dictionary.
  The first component of the result is what the call writes to the log.
\<close>

definition payment_error :: "string list \<times> (py_error + payment_result)" where
  "payment_error = ([''Plaid payment error''], Inr payment_failed)"

definition send_payment_via_plaid ::
  "world \<Rightarrow> database \<Rightarrow> decimal \<Rightarrow> int \<Rightarrow> string \<Rightarrow> string list \<times> (py_error + payment_result)" where
  "send_payment_via_plaid w d amount employee_id description =
     (case scalar_one_or_none (filter (\<lambda>e. emp_id e = employee_id) (employees d)) of
        Inl err \<Rightarrow> payment_error
      | Inr None \<Rightarrow> payment_error
      | Inr (Some employee) \<Rightarrow>
          (case scalar_one_or_none
                  (filter (\<lambda>b. ba_employee_id b = employee_id \<and> is_verified b) (bank_accounts d)) of
             Inl err \<Rightarrow> payment_error
           | Inr None \<Rightarrow> payment_error
           | Inr (Some bank_account) \<Rightarrow>
               (case plaid_create_payment_recipient w
                       (first_name employee @ '' '' @ last_name employee) of
                  None \<Rightarrow> payment_error
                | Some recipient_id \<Rightarrow>
                    (case plaid_create_payment w recipient_id description amount of
                       None \<Rightarrow> payment_error
                     | Some payment_id \<Rightarrow>
                         (case plaid_get_payment_status w payment_id of
                            None \<Rightarrow> payment_error
                          | Some (st, reference) \<Rightarrow>
                              ([], Inr \<lparr>pr_method = ''plaid'', pr_payment_id = Some payment_id,
                                       pr_status = st, pr_reference = Some reference\<rparr>))))))"

section \<open>The employee payroll processor: \<^verbatim>\<open>PayrollService._process_employee_payroll\<close>\<close>

text \<open>Lines 128 to 139: the approved timesheets of the employee inside the pay period.\<close>

definition eligible_timesheets :: "database \<Rightarrow> Employee \<Rightarrow> PayrollRun \<Rightarrow> Timesheet list" where
  "eligible_timesheets d employee payroll_run =
     filter (\<lambda>t. ts_employee_id t = emp_id employee \<and> ts_status t = TS_APPROVED \<and>
                 pay_period_start payroll_run \<le> week_start_date t \<and>
                 week_end_date t \<le> pay_period_end payroll_run)
       (timesheets d)"

text \<open>Lines 141 to 147: the loop over the timesheets, with its two accumulators.\<close>

fun sum_hours :: "Timesheet list \<Rightarrow> decimal \<times> decimal \<Rightarrow> decimal \<times> decimal" where
  "sum_hours [] acc = acc"
| "sum_hours (timesheet # rest) (total_regular_hours, total_overtime_hours) =
     sum_hours rest
       (dadd total_regular_hours (dsub (total_hours timesheet) (overtime_hours timesheet)),
        dadd total_overtime_hours (overtime_hours timesheet))"

definition aggregate_hours :: "Timesheet list \<Rightarrow> decimal \<times> decimal" where
  "aggregate_hours tss = sum_hours tss (Dec 0 0, Dec 0 0)"

text \<open>
  Lines 149 to 159: regular pay, overtime pay and gross pay. Multiplying by a
  \<^verbatim>\<open>hourly_rate\<close> that is \<^verbatim>\<open>None\<close> raises \<^verbatim>\<open>TypeError\<close>.
\<close>

definition compute_pay ::
  "Employee \<Rightarrow> PayrollRun \<Rightarrow> decimal \<Rightarrow> decimal \<Rightarrow> py_error + decimal \<times> decimal \<times> decimal" where
  "compute_pay employee payroll_run total_regular_hours total_overtime_hours =
     and_then
       (if salary_type employee = HOURLY then
          (case hourly_rate employee of
             None \<Rightarrow> Inl TypeError
           | Some rate \<Rightarrow>
               Inr (dmul total_regular_hours rate,
                    dmul (dmul total_overtime_hours rate) (Dec 15 (- 1))))
        else
          (let days_in_period =
                 timedelta_days (pay_period_end payroll_run) (pay_period_start payroll_run) + 1
           in and_then (ddiv (base_salary employee) (Dec 365 0))
                (\<lambda>daily. Inr (dmul daily (Dec days_in_period 0), Dec 0 0))))
       (\<lambda>(regular_pay, overtime_pay). Inr (regular_pay, overtime_pay, dadd regular_pay overtime_pay))"

text \<open>
  Lines 201 to 219: the PDF is generated and its URL stored; an exception in
  the renderer, the upload or the mail is printed and swallowed.
\<close>

definition generate_payslip_pdf :: "world \<Rightarrow> database \<Rightarrow> Payslip \<Rightarrow> Employee \<Rightarrow> database \<times> Payslip" where
  "generate_payslip_pdf w d payslip employee =
     (case pdf_service_generate_payslip_pdf w payslip employee of
        None \<Rightarrow> (d, payslip)
      | Some url \<Rightarrow>
          (let payslip' = payslip\<lparr>pdf_url := Some url, pdf_generated_at := Some (utcnow w)\<rparr>
           in (commit_payslip d payslip', payslip')))"

text \<open>\<^verbatim>\<open>a or b\<close> on two optional strings: \<open>a\<close> when it is a non-empty string.\<close>

definition py_or :: "string option \<Rightarrow> string option \<Rightarrow> string option" where
  "py_or a b = (case a of Some (c # cs) \<Rightarrow> a | _ \<Rightarrow> b)"

text \<open>
  Lines 221 to 243. The \<^verbatim>\<open>try\<close> block calls the payment service, assigns the
  three payment fields and commits. Its handler starts with
  \<^verbatim>\<open>logger.error(...)\<close>, and the module neither imports nor defines \<^verbatim>\<open>logger\<close>:
  an exception that reaches the handler is replaced by a \<^verbatim>\<open>NameError\<close> before
  the two assignments of \<^verbatim>\<open>'failed'\<close> and the second commit run. The payment
  service returns whatever happens inside it, so that the handler is reached
  when the commit of the \<^verbatim>\<open>try\<close> block raises.
\<close>

definition payment_description :: "world \<Rightarrow> Payslip \<Rightarrow> string" where
  "payment_description w payslip =
     ''Payroll payment for '' @ strftime w (ps_pay_period_start payslip) @ '' to '' @
     strftime w (ps_pay_period_end payslip)"

definition process_payment ::
  "world \<Rightarrow> database \<Rightarrow> Payslip \<Rightarrow> Employee \<Rightarrow> database \<times> (py_error + Payslip)" where
  "process_payment w d payslip employee =
     (case snd (send_payment_via_plaid w d (net_pay payslip) (emp_id employee)
                  (payment_description w payslip)) of
        Inr payment_result \<Rightarrow>
          (let payslip' = payslip
                 \<lparr>payment_method := Some (pr_method payment_result),
                  payment_reference :=
                    py_or (pr_payment_id payment_result) (pr_reference payment_result),
                  payment_status := pr_status payment_result\<rparr>
           in if payment_commit_fails w payslip' then (d, Inl (NameError ''logger''))
              else (commit_payslip d payslip', Inr payslip'))
      | Inl err \<Rightarrow> (d, Inl (NameError ''logger'')))"

text \<open>\<^verbatim>\<open>if employee.bank_account_id:\<close> holds for a non-empty string.\<close>

definition truthy :: "string option \<Rightarrow> bool" where
  "truthy a = (case a of Some (c # cs) \<Rightarrow> True | _ \<Rightarrow> False)"

text \<open>
  Lines 168 to 186: the payslip object, before the database gives it a key.
  \<open>hours\<close> is the pair of regular and overtime hours, \<open>pay\<close> the triple of
  regular pay, overtime pay and gross pay.
\<close>

definition new_payslip ::
  "Employee \<Rightarrow> PayrollRun \<Rightarrow> decimal \<times> decimal \<Rightarrow> decimal \<times> decimal \<times> decimal \<Rightarrow>
   tax_calculations \<Rightarrow> Payslip" where
  "new_payslip employee payroll_run hours pay tax =
     \<lparr>ps_id = 0,
      ps_employee_id = emp_id employee,
      payroll_run_id = run_id payroll_run,
      ps_pay_period_start = pay_period_start payroll_run,
      ps_pay_period_end = pay_period_end payroll_run,
      ps_pay_date = pay_date payroll_run,
      regular_hours = fst hours,
      ps_overtime_hours = snd hours,
      regular_pay = fst pay,
      overtime_pay = fst (snd pay),
      gross_pay = snd (snd pay),
      federal_tax = tx_federal_tax tax,
      state_tax = tx_state_tax tax,
      social_security = tx_social_security tax,
      medicare = tx_medicare tax,
      total_deductions = tx_total_deductions tax,
      net_pay = tx_net_pay tax,
      payment_status = ''pending'',
      payment_method = None,
      payment_reference = None,
      pdf_url = None,
      pdf_generated_at = None\<rparr>"

text \<open>
  A payslip without what the database and the follow-up steps add to it: the
  key, the PDF fields and the payment fields.
\<close>

definition without_followup :: "Payslip \<Rightarrow> Payslip" where
  "without_followup p =
     p\<lparr>ps_id := 0, payment_status := ''pending'', payment_method := None,
       payment_reference := None, pdf_url := None, pdf_generated_at := None\<rparr>"

text \<open>
  Lines 128 to 186 up to the construction of the payslip, with the amounts as
  they are computed: nothing is written to the database before this point.
\<close>

definition employee_payslip ::
  "database \<Rightarrow> Employee \<Rightarrow> PayrollRun \<Rightarrow> TaxConfiguration \<Rightarrow> py_error + Payslip" where
  "employee_payslip d employee payroll_run tax_config =
     (let hours = aggregate_hours (eligible_timesheets d employee payroll_run)
      in and_then (compute_pay employee payroll_run (fst hours) (snd hours)) (\<lambda>pay.
         and_then (calculate_taxes (snd (snd pay)) tax_config) (\<lambda>tax.
           Inr (new_payslip employee payroll_run hours pay tax))))"

text \<open>
  The whole function: the payslip is added, committed and read back (lines
  188 to 190), then the PDF and, for an employee with a bank account, the
  payment follow.
\<close>

definition process_employee_payroll ::
  "world \<Rightarrow> database \<Rightarrow> Employee \<Rightarrow> PayrollRun \<Rightarrow> TaxConfiguration \<Rightarrow>
   database \<times> (py_error + Payslip)" where
  "process_employee_payroll w d employee payroll_run tax_config =
     (case employee_payslip d employee payroll_run tax_config of
        Inl err \<Rightarrow> (d, Inl err)
      | Inr payslip0 \<Rightarrow>
          (case add_payslip d payslip0 of (d1, payslip1) \<Rightarrow>
           case generate_payslip_pdf w d1 payslip1 employee of (d2, payslip2) \<Rightarrow>
             if truthy (bank_account_id employee)
             then process_payment w d2 payslip2 employee
             else (d2, Inr payslip2)))"

section \<open>The run orchestrator: \<^verbatim>\<open>PayrollService.process_payroll\<close>\<close>

text \<open>
  Lines 86 to 94: the loop over the employees. There is no \<^verbatim>\<open>try\<close> inside the
  loop: an exception of one employee leaves the loop.
\<close>

fun add_totals :: "decimal \<times> decimal \<times> decimal \<Rightarrow> Payslip \<Rightarrow> decimal \<times> decimal \<times> decimal" where
  "add_totals (total_gross_pay', total_net_pay', total_taxes') payslip =
     (dadd total_gross_pay' (gross_pay payslip),
      dadd total_net_pay' (net_pay payslip),
      dadd total_taxes' (total_deductions payslip))"

fun process_employees ::
  "world \<Rightarrow> database \<Rightarrow> PayrollRun \<Rightarrow> TaxConfiguration \<Rightarrow> Employee list \<Rightarrow>
   decimal \<times> decimal \<times> decimal \<Rightarrow> database \<times> (py_error + decimal \<times> decimal \<times> decimal)" where
  "process_employees w d payroll_run tax_config [] totals = (d, Inr totals)"
| "process_employees w d payroll_run tax_config (employee # rest) totals =
     (case process_employee_payroll w d employee payroll_run tax_config of
        (d', Inl err) \<Rightarrow> (d', Inl err)
      | (d', Inr payslip) \<Rightarrow>
          process_employees w d' payroll_run tax_config rest (add_totals totals payslip))"

text \<open>
  The dictionary returned to the caller. The source converts the three totals
  with \<^verbatim>\<open>float\<close>; the record holds them before that conversion.
\<close>

record run_summary =
  sm_payroll_run_id :: int
  sm_status :: string
  sm_total_employees :: nat
  sm_total_gross_pay :: decimal
  sm_total_net_pay :: decimal
  sm_total_taxes :: decimal

definition run_employees :: "database \<Rightarrow> PayrollRun \<Rightarrow> Employee list" where
  "run_employees d payroll_run =
     filter (\<lambda>e. emp_org_id e = run_org_id payroll_run \<and> emp_is_active e) (employees d)"

definition active_tax_configs :: "database \<Rightarrow> PayrollRun \<Rightarrow> TaxConfiguration list" where
  "active_tax_configs d payroll_run =
     filter (\<lambda>t. tc_org_id t = run_org_id payroll_run \<and> tc_is_active t) (tax_configurations d)"

text \<open>Lines 56 to 112: the body of the \<^verbatim>\<open>try\<close> block.\<close>

definition process_payroll_try ::
  "world \<Rightarrow> database \<Rightarrow> PayrollRun \<Rightarrow> database \<times> (py_error + run_summary)" where
  "process_payroll_try w d payroll_run =
     (let emps = run_employees d payroll_run in
      case scalar_one_or_none (active_tax_configs d payroll_run) of
        Inl err \<Rightarrow> (d, Inl err)
      | Inr None \<Rightarrow> (d, Inl (ValueError ''Tax configuration not found for organization''))
      | Inr (Some tax_config) \<Rightarrow>
          (case process_employees w d payroll_run tax_config emps (Dec 0 0, Dec 0 0, Dec 0 0) of
             (d', Inl err) \<Rightarrow> (d', Inl err)
           | (d', Inr (g, n, t)) \<Rightarrow>
               (commit_run d'
                  (payroll_run\<lparr>total_gross_pay := g, total_net_pay := n, total_taxes := t,
                     run_status := COMPLETED, processed_at := Some (utcnow w)\<rparr>),
                Inr \<lparr>sm_payroll_run_id = run_id payroll_run, sm_status = ''completed'',
                     sm_total_employees = length emps, sm_total_gross_pay = g,
                     sm_total_net_pay = n, sm_total_taxes = t\<rparr>)))"

text \<open>
  Lines 43 to 118. The status is set to \<^verbatim>\<open>PROCESSING\<close> without looking at the
  current one; the handler of the \<^verbatim>\<open>try\<close> block sets \<^verbatim>\<open>FAILED\<close>, commits and
  raises the exception again.
\<close>

definition process_payroll ::
  "world \<Rightarrow> database \<Rightarrow> int \<Rightarrow> database \<times> (py_error + run_summary)" where
  "process_payroll w d payroll_run_id' =
     (case scalar_one_or_none (filter (\<lambda>r. run_id r = payroll_run_id') (payroll_runs d)) of
        Inl err \<Rightarrow> (d, Inl err)
      | Inr None \<Rightarrow> (d, Inl (ValueError ''Payroll run not found''))
      | Inr (Some found) \<Rightarrow>
          (let payroll_run = found\<lparr>run_status := PROCESSING\<rparr>;
               d1 = commit_run d payroll_run
           in case process_payroll_try w d1 payroll_run of
                (d2, Inr summary) \<Rightarrow> (d2, Inr summary)
              | (d2, Inl err) \<Rightarrow> (commit_run d2 (payroll_run\<lparr>run_status := FAILED\<rparr>), Inl err)))"

section \<open>The routers: creating a run and creating a timesheet\<close>

record UserInfo =
  sub :: string
  groups :: "string list"

record PayrollRunCreate =
  prc_org_id :: int
  prc_pay_period_start :: datetime
  prc_pay_period_end :: datetime
  prc_pay_date :: datetime

definition same_period :: "PayrollRunCreate \<Rightarrow> PayrollRun \<Rightarrow> bool" where
  "same_period req r \<longleftrightarrow>
     run_org_id r = prc_org_id req \<and> pay_period_start r = prc_pay_period_start req \<and>
     pay_period_end r = prc_pay_period_end req"

text \<open>\<^verbatim>\<open>routers/payroll.py\<close>, lines 30 to 66.\<close>

definition create_payroll_run ::
  "database \<Rightarrow> UserInfo \<Rightarrow> PayrollRunCreate \<Rightarrow> database \<times> (py_error + PayrollRun)" where
  "create_payroll_run d current_user payroll_run =
     (if ''admin'' \<notin> set (groups current_user)
      then (d, Inl (HTTPException 403 ''Only admins can create payroll runs''))
      else
        case scalar_one_or_none (filter (same_period payroll_run) (payroll_runs d)) of
          Inl err \<Rightarrow> (d, Inl err)
        | Inr (Some existing_run) \<Rightarrow>
            (d, Inl (HTTPException 400 ''Payroll run already exists for this period''))
        | Inr None \<Rightarrow>
            (let db_payroll_run =
                   \<lparr>run_id = next_id (map run_id (payroll_runs d)),
                    run_org_id = prc_org_id payroll_run,
                    pay_period_start = prc_pay_period_start payroll_run,
                    pay_period_end = prc_pay_period_end payroll_run,
                    pay_date = prc_pay_date payroll_run,
                    run_status = PENDING,
                    total_gross_pay = Dec 0 0, total_net_pay = Dec 0 0, total_taxes = Dec 0 0,
                    processed_by = None, processed_at = None\<rparr>
             in (d\<lparr>payroll_runs := payroll_runs d @ [db_payroll_run]\<rparr>, Inr db_payroll_run)))"

record TimesheetCreate =
  tsc_employee_id :: int
  tsc_week_start_date :: datetime
  tsc_week_end_date :: datetime
  tsc_monday_hours :: decimal
  tsc_tuesday_hours :: decimal
  tsc_wednesday_hours :: decimal
  tsc_thursday_hours :: decimal
  tsc_friday_hours :: decimal
  tsc_saturday_hours :: decimal
  tsc_sunday_hours :: decimal

text \<open>
  \<^verbatim>\<open>routers/timesheets.py\<close>, lines 74 to 90: the row built from the request,
  with the derived \<^verbatim>\<open>total_hours\<close> and \<^verbatim>\<open>overtime_hours\<close>.
\<close>

definition timesheet_row :: "TimesheetCreate \<Rightarrow> int \<Rightarrow> Timesheet" where
  "timesheet_row timesheet employee_id =
     (let total_hours' =
            dadd (dadd (dadd (dadd (dadd (dadd (tsc_monday_hours timesheet)
              (tsc_tuesday_hours timesheet)) (tsc_wednesday_hours timesheet))
              (tsc_thursday_hours timesheet)) (tsc_friday_hours timesheet))
              (tsc_saturday_hours timesheet)) (tsc_sunday_hours timesheet);
          overtime_hours' = py_max (Dec 0 0) (dsub total_hours' (Dec 40 0))
      in \<lparr>ts_id = 0,
          ts_employee_id = employee_id,
          week_start_date = tsc_week_start_date timesheet,
          week_end_date = tsc_week_end_date timesheet,
          monday_hours = tsc_monday_hours timesheet,
          tuesday_hours = tsc_tuesday_hours timesheet,
          wednesday_hours = tsc_wednesday_hours timesheet,
          thursday_hours = tsc_thursday_hours timesheet,
          friday_hours = tsc_friday_hours timesheet,
          saturday_hours = tsc_saturday_hours timesheet,
          sunday_hours = tsc_sunday_hours timesheet,
          total_hours = total_hours',
          overtime_hours = overtime_hours',
          ts_status = TS_PENDING\<rparr>)"

text \<open>
  The row as its columns hold it: \<^verbatim>\<open>DECIMAL(4, 2)\<close> for the hours of a day,
  \<^verbatim>\<open>DECIMAL(5, 2)\<close> for the two derived columns.
\<close>

definition timesheet_columns :: "Timesheet \<Rightarrow> Timesheet" where
  "timesheet_columns t =
     t\<lparr>monday_hours := column 2 (monday_hours t),
       tuesday_hours := column 2 (tuesday_hours t),
       wednesday_hours := column 2 (wednesday_hours t),
       thursday_hours := column 2 (thursday_hours t),
       friday_hours := column 2 (friday_hours t),
       saturday_hours := column 2 (saturday_hours t),
       sunday_hours := column 2 (sunday_hours t),
       total_hours := column 2 (total_hours t),
       overtime_hours := column 2 (overtime_hours t)\<rparr>"


section \<open>Example data\<close>

text \<open>
  A world in which the PDF renderer and every Plaid call raise and the
  database takes every commit, and one
  organization with five active employees, a pay period of fourteen days and
  the reference rates. Employee 1 is paid by the hour and has one approved
  timesheet of fifty hours inside the period, one that is still pending and an
  approved one outside the period; employee 2 has a fixed salary; employee 3
  is paid by the hour and has no hourly rate.
\<close>

definition world0 :: world where
  "world0 =
     \<lparr>utcnow = 2000000000000, strftime = (\<lambda>t. ''date''),
      pdf_service_generate_payslip_pdf = (\<lambda>p e. None),
      plaid_create_payment_recipient = (\<lambda>n. None),
      plaid_create_payment = (\<lambda>r s a. None),
      plaid_get_payment_status = (\<lambda>i. None),
      payment_commit_fails = (\<lambda>p. False)\<rparr>"

definition day :: int where
  "day = 86400000000"

definition employee1 :: Employee where
  "employee1 =
     \<lparr>emp_id = 1, cognito_sub = ''sub-1'', emp_org_id = 1, first_name = ''Ada'',
      last_name = ''One'', salary_type = HOURLY, base_salary = Dec 0 (- 2),
      hourly_rate = Some (Dec 2500 (- 2)), bank_account_id = Some ''account-1'',
      emp_is_active = True\<rparr>"

definition employee2 :: Employee where
  "employee2 =
     \<lparr>emp_id = 2, cognito_sub = ''sub-2'', emp_org_id = 1, first_name = ''Bo'',
      last_name = ''Two'', salary_type = FIXED, base_salary = Dec 3650000 (- 2),
      hourly_rate = None, bank_account_id = None, emp_is_active = True\<rparr>"

definition employee3 :: Employee where
  "employee3 =
     \<lparr>emp_id = 3, cognito_sub = ''sub-3'', emp_org_id = 1, first_name = ''Cy'',
      last_name = ''Three'', salary_type = HOURLY, base_salary = Dec 0 (- 2),
      hourly_rate = None, bank_account_id = None, emp_is_active = True\<rparr>"

definition employee4 :: Employee where
  "employee4 =
     \<lparr>emp_id = 4, cognito_sub = ''sub-4'', emp_org_id = 1, first_name = ''Di'',
      last_name = ''Four'', salary_type = HOURLY, base_salary = Dec 0 (- 2),
      hourly_rate = Some (Dec 3000 (- 2)), bank_account_id = None, emp_is_active = True\<rparr>"

definition employee5 :: Employee where
  "employee5 =
     \<lparr>emp_id = 5, cognito_sub = ''sub-5'', emp_org_id = 1, first_name = ''Ed'',
      last_name = ''Five'', salary_type = FIXED, base_salary = Dec 7300000 (- 2),
      hourly_rate = None, bank_account_id = None, emp_is_active = True\<rparr>"

definition fifty_hours :: TimesheetCreate where
  "fifty_hours =
     \<lparr>tsc_employee_id = 1, tsc_week_start_date = 0, tsc_week_end_date = 6 * day,
      tsc_monday_hours = Dec 10 0, tsc_tuesday_hours = Dec 10 0,
      tsc_wednesday_hours = Dec 10 0, tsc_thursday_hours = Dec 10 0,
      tsc_friday_hours = Dec 10 0, tsc_saturday_hours = Dec 0 0,
      tsc_sunday_hours = Dec 0 0\<rparr>"

definition forty_hours :: TimesheetCreate where
  "forty_hours =
     \<lparr>tsc_employee_id = 1, tsc_week_start_date = 7 * day, tsc_week_end_date = 13 * day,
      tsc_monday_hours = Dec 8 0, tsc_tuesday_hours = Dec 8 0,
      tsc_wednesday_hours = Dec 8 0, tsc_thursday_hours = Dec 8 0,
      tsc_friday_hours = Dec 8 0, tsc_saturday_hours = Dec 0 0,
      tsc_sunday_hours = Dec 0 0\<rparr>"

definition timesheet1 :: Timesheet where
  "timesheet1 =
     (timesheet_columns (timesheet_row fifty_hours 1))\<lparr>ts_id := 1, ts_status := TS_APPROVED\<rparr>"

definition timesheet2 :: Timesheet where
  "timesheet2 = (timesheet_columns (timesheet_row forty_hours 1))\<lparr>ts_id := 2\<rparr>"

definition timesheet3 :: Timesheet where
  "timesheet3 =
     (timesheet_columns (timesheet_row forty_hours 1))
       \<lparr>ts_id := 3, week_start_date := 14 * day, week_end_date := 20 * day,
        ts_status := TS_APPROVED\<rparr>"

definition run1 :: PayrollRun where
  "run1 =
     \<lparr>run_id = 1, run_org_id = 1, pay_period_start = 0, pay_period_end = 13 * day,
      pay_date = 16 * day, run_status = PENDING, total_gross_pay = Dec 0 0,
      total_net_pay = Dec 0 0, total_taxes = Dec 0 0, processed_by = None,
      processed_at = None\<rparr>"

definition example_db :: database where
  "example_db =
     \<lparr>employees = [employee1, employee2, employee3, employee4, employee5],
      timesheets = [timesheet1, timesheet2, timesheet3],
      tax_configurations = [reference_rates],
      payroll_runs = [run1],
      payslips = [],
      bank_accounts = []\<rparr>"

text \<open>The same organization with its only tax configuration switched off.\<close>

definition no_tax_db :: database where
  "no_tax_db = example_db\<lparr>tax_configurations := [reference_rates\<lparr>tc_is_active := False\<rparr>]\<rparr>"

text \<open>
  A run that was completed before, for an organization with one salaried
  employee, together with the payslip of that run.
\<close>

definition payslip_done :: Payslip where
  "payslip_done =
     \<lparr>ps_id = 1, ps_employee_id = 2, payroll_run_id = 1,
      ps_pay_period_start = 0, ps_pay_period_end = 13 * day, ps_pay_date = 16 * day,
      regular_hours = Dec 0 (- 2), ps_overtime_hours = Dec 0 (- 2),
      regular_pay = Dec 140000 (- 2), overtime_pay = Dec 0 (- 2), gross_pay = Dec 140000 (- 2),
      federal_tax = Dec 30800 (- 2), state_tax = Dec 7000 (- 2),
      social_security = Dec 8680 (- 2), medicare = Dec 2030 (- 2),
      total_deductions = Dec 48510 (- 2), net_pay = Dec 91490 (- 2),
      payment_status = ''pending'', payment_method = None, payment_reference = None,
      pdf_url = None, pdf_generated_at = None\<rparr>"

definition run_done :: PayrollRun where
  "run_done =
     run1\<lparr>run_status := COMPLETED, total_gross_pay := Dec 140000 (- 2),
       total_net_pay := Dec 91490 (- 2), total_taxes := Dec 48510 (- 2),
       processed_at := Some 1500000000000\<rparr>"

definition completed_db :: database where
  "completed_db =
     example_db\<lparr>employees := [employee2], payroll_runs := [run_done],
       payslips := [payslip_done]\<rparr>"

text \<open>Two of the employees, the second one without an hourly rate.\<close>

definition two_db :: database where
  "two_db = example_db\<lparr>employees := [employee2, employee3]\<rparr>"

text \<open>
  An administrator, the organization before any run exists, and two requests
  for the same organization and period that differ in the pay date only.
\<close>

definition admin_user :: UserInfo where
  "admin_user = \<lparr>sub = ''sub-admin'', groups = [''admin'']\<rparr>"

definition no_runs_db :: database where
  "no_runs_db = example_db\<lparr>payroll_runs := []\<rparr>"

definition request1 :: PayrollRunCreate where
  "request1 =
     \<lparr>prc_org_id = 1, prc_pay_period_start = 0, prc_pay_period_end = 13 * day,
      prc_pay_date = 16 * day\<rparr>"

definition request1_again :: PayrollRunCreate where
  "request1_again = request1\<lparr>prc_pay_date := 17 * day\<rparr>"













section \<open>Evaluation rules\<close>



section \<open>Reference vectors of the tax calculator\<close>

lemma reference_vector_1000:
  "calculate_taxes (Dec 100000 (- 2)) reference_rates =
     Inr \<lparr>tx_federal_tax = Dec 22000 (- 2), tx_state_tax = Dec 5000 (- 2),
          tx_social_security = Dec 6200 (- 2), tx_medicare = Dec 1450 (- 2),
          tx_total_deductions = Dec 34650 (- 2), tx_net_pay = Dec 65350 (- 2)\<rparr>"
  by code_simp

lemma reference_vector_200000:
  "calculate_taxes (Dec 20000000 (- 2)) reference_rates =
     Inr \<lparr>tx_federal_tax = Dec 4400000 (- 2), tx_state_tax = Dec 1000000 (- 2),
          tx_social_security = Dec 993240 (- 2), tx_medicare = Dec 290000 (- 2),
          tx_total_deductions = Dec 6683240 (- 2), tx_net_pay = Dec 13316760 (- 2)\<rparr>"
  by code_simp

lemma capped_base: "py_min (Dec 20000000 (- 2)) (Dec 160200 0) = Dec 160200 0"
  by code_simp

lemma social_security_any_config:
  "quantize (fst (snd (snd (unrounded_taxes (Dec 20000000 (- 2))
      (tc\<lparr>social_security_rate := Dec 62 (- 3)\<rparr>))))) cent = Inr (Dec 993240 (- 2))"
  unfolding unrounded_taxes_def Let_def by (simp add: capped_base) code_simp

text \<open>
  Claim C4. With gross pay 1000.00 and the rates 0.22, 0.05, 0.062 and 0.0145,
  \<open>calculate_taxes\<close> returns exactly 220.00, 50.00, 62.00, 14.50, 346.50 and
  653.50 (a HOL function: the same value at every call). With gross pay
  200000.00 and a social security rate of 0.062 the social security deduction
  is computed on the wage base, 160200 * 0.062 = 9932.400, and returned as
  9932.40, whatever the other rates are; it is not 12400.00.
\<close>

theorem C4_reference_vectors:
  "calculate_taxes (Dec 100000 (- 2)) reference_rates =
     Inr \<lparr>tx_federal_tax = Dec 22000 (- 2), tx_state_tax = Dec 5000 (- 2),
          tx_social_security = Dec 6200 (- 2), tx_medicare = Dec 1450 (- 2),
          tx_total_deductions = Dec 34650 (- 2), tx_net_pay = Dec 65350 (- 2)\<rparr>
   \<and> map_sum id tx_social_security (calculate_taxes (Dec 20000000 (- 2)) reference_rates) =
       Inr (Dec 993240 (- 2))
   \<and> dmul (py_min (Dec 20000000 (- 2)) (Dec 160200 0)) (Dec 62 (- 3)) = Dec 9932400 (- 3)
   \<and> quantize (fst (snd (snd (unrounded_taxes (Dec 20000000 (- 2))
        (tc\<lparr>social_security_rate := Dec 62 (- 3)\<rparr>))))) cent = Inr (Dec 993240 (- 2))
   \<and> Dec 993240 (- 2) \<noteq> Dec 1240000 (- 2)"
proof -
  have "dmul (py_min (Dec 20000000 (- 2)) (Dec 160200 0)) (Dec 62 (- 3)) = Dec 9932400 (- 3)"
    by code_simp
  then show ?thesis
    using reference_vector_1000 reference_vector_200000 social_security_any_config [of tc]
    by simp
qed

section \<open>Rounding: \<^verbatim>\<open>quantize\<close> returns the nearest multiple of 0.01\<close>


lemma round_half_even_nearest:
  assumes "0 < D"
  shows "2 * \<bar>round_half_even n D * D - n\<bar> \<le> D"
proof -
  define a where "a = \<bar>n\<bar>"
  define q where "q = a div D"
  define r where "r = a mod D"
  have a: "a = q * D + r" and r: "0 \<le> r" "r < D"
    using assms by (simp_all add: q_def r_def)
  define m where "m = (if 2 * r < D then q else if D < 2 * r then q + 1
               else if even q then q else q + 1)"
  have m: "2 * \<bar>m * D - a\<bar> \<le> D"
    using a r by (auto simp: m_def algebra_simps)
  have rhe: "round_half_even n D = sgn n * m"
    by (simp add: round_half_even_def Let_def m_def q_def r_def a_def)
  have "\<bar>sgn n * m * D - n\<bar> = \<bar>m * D - a\<bar>"
  proof (cases "n < 0")
    case True
    then have "sgn n * m * D - n = - (m * D - a)" by (simp add: a_def algebra_simps)
    then show ?thesis by simp
  next
    case False
    show ?thesis
    proof (cases "n = 0")
      case True
      then have "a = 0" by (simp add: a_def)
      then have "m = 0" using assms by (simp add: m_def q_def r_def)
      then show ?thesis using True \<open>a = 0\<close> by simp
    next
      case False
      with \<open>\<not> n < 0\<close> have "0 < n" by simp
      then show ?thesis by (simp add: a_def)
    qed
  qed
  then show ?thesis using m rhe by simp
qed

lemma dval_Dec: "dval (Dec c e) = of_int c * 10 powi e"
  by (simp add: dval_def)

lemma rescale_exact:
  assumes "e \<le> expo d"
  shows "dval (rescale d e) = dval d"
proof -
  define k where "k = nat (expo d - e)"
  have "(10::rat) powi (expo d) = 10 powi (int k + e)"
    using assms by (simp add: k_def)
  also have "\<dots> = 10 ^ k * 10 powi e"
    by (subst power_int_add) simp_all
  finally have pw: "(10::rat) powi (expo d) = 10 ^ k * 10 powi e" .
  have "dval (rescale d e) = of_int (coeff d) * (10 ^ k * 10 powi e)"
    using assms by (simp add: rescale_def dval_def k_def)
  then show ?thesis by (simp add: dval_def pw)
qed

lemma rescale_nearest:
  "\<bar>dval (rescale d e) - dval d\<bar> \<le> 10 powi e / 2"
proof (cases "e \<le> expo d")
  case True
  then show ?thesis by (simp add: rescale_exact)
next
  case False
  define k where "k = nat (e - expo d)"
  define D :: int where "D = 10 ^ k"
  define m where "m = round_half_even (coeff d) D"
  have D: "0 < D" by (simp add: D_def)
  have near: "2 * \<bar>m * D - coeff d\<bar> \<le> D"
    unfolding m_def by (rule round_half_even_nearest [OF D])
  have pw: "(10::rat) powi e = of_int D * 10 powi (expo d)"
  proof -
    have "(10::rat) powi e = 10 powi (int k + expo d)"
      using False by (simp add: k_def)
    also have "\<dots> = 10 ^ k * 10 powi (expo d)"
      by (subst power_int_add) simp_all
    finally show ?thesis by (simp add: D_def)
  qed
  have "dval (rescale d e) - dval d = of_int (m * D - coeff d) * 10 powi (expo d)"
    using False by (simp add: rescale_def dval_def m_def D_def k_def pw algebra_simps)
  then have "\<bar>dval (rescale d e) - dval d\<bar> = of_int \<bar>m * D - coeff d\<bar> * 10 powi (expo d)"
    by (simp add: abs_mult)
  also have "\<dots> \<le> (of_int D / 2) * 10 powi (expo d)"
  proof (rule mult_right_mono)
    have "(of_int (2 * \<bar>m * D - coeff d\<bar>) :: rat) \<le> of_int D"
      using near by (simp only: of_int_le_iff)
    then show "(of_int \<bar>m * D - coeff d\<bar> :: rat) \<le> of_int D / 2" by simp
    show "(0::rat) \<le> 10 powi expo d" by simp
  qed
  finally show ?thesis by (simp add: pw)
qed

lemma quantize_cent:
  assumes "quantize d cent = Inr q"
  shows "expo q = - 2 \<and> \<bar>dval q - dval d\<bar> \<le> 1 / 200"
proof (cases "coeff d = 0")
  case True
  then show ?thesis using assms by (auto simp: quantize_def cent_def dval_def)
next
  case False
  then have q: "q = rescale d (- 2)"
    using assms by (auto simp: quantize_def cent_def Let_def split: if_splits)
  have "expo q = - 2" by (simp add: q rescale_def)
  moreover have "\<bar>dval q - dval d\<bar> \<le> 10 powi (- 2) / 2"
    unfolding q by (rule rescale_nearest)
  ultimately show ?thesis by (simp add: power_int_minus)
qed

section \<open>Rounding order in the tax calculator\<close>

lemma and_then_Inr: "and_then r f = Inr y \<longleftrightarrow> (\<exists>x. r = Inr x \<and> f x = Inr y)"
  by (cases r) (simp_all add: and_then_def)

lemma and_then_Inl: "and_then r f = Inl e \<longleftrightarrow> r = Inl e \<or> (\<exists>x. r = Inr x \<and> f x = Inl e)"
  by (cases r) (simp_all add: and_then_def)

lemma unrounded_taxes_totals:
  assumes "unrounded_taxes gross tax_config = (F, S, SS, M, T, N)"
  shows "T = dadd (dadd (dadd F S) SS) M \<and> N = dsub gross T"
  using assms by (auto simp: unrounded_taxes_def Let_def)

lemma calculate_taxes_fields:
  assumes "calculate_taxes gross tax_config = Inr r"
    and "unrounded_taxes gross tax_config = (F, S, SS, M, T, N)"
  shows "quantize F cent = Inr (tx_federal_tax r) \<and> quantize S cent = Inr (tx_state_tax r) \<and>
         quantize SS cent = Inr (tx_social_security r) \<and> quantize M cent = Inr (tx_medicare r) \<and>
         quantize T cent = Inr (tx_total_deductions r) \<and> quantize N cent = Inr (tx_net_pay r)"
  using assms by (auto simp: calculate_taxes_def and_then_Inr)

lemma unrounded_100002:
  "unrounded_taxes (Dec 100002 (- 2)) reference_rates =
     (Dec 2200044 (- 4), Dec 500010 (- 4), Dec 6200124 (- 5), Dec 14500290 (- 6),
      Dec 346506930 (- 6), Dec 653513070 (- 6))"
  by code_simp

lemma taxes_100002:
  "calculate_taxes (Dec 100002 (- 2)) reference_rates =
     Inr \<lparr>tx_federal_tax = Dec 22000 (- 2), tx_state_tax = Dec 5000 (- 2),
          tx_social_security = Dec 6200 (- 2), tx_medicare = Dec 1450 (- 2),
          tx_total_deductions = Dec 34651 (- 2), tx_net_pay = Dec 65351 (- 2)\<rparr>"
  by code_simp

lemma taxes_100010:
  "calculate_taxes (Dec 100010 (- 2)) reference_rates =
     Inr \<lparr>tx_federal_tax = Dec 22002 (- 2), tx_state_tax = Dec 5000 (- 2),
          tx_social_security = Dec 6201 (- 2), tx_medicare = Dec 1450 (- 2),
          tx_total_deductions = Dec 34653 (- 2), tx_net_pay = Dec 65357 (- 2)\<rparr>"
  by code_simp

lemma rounded_items_100002:
  "dadd (dadd (dadd (Dec 22000 (- 2)) (Dec 5000 (- 2))) (Dec 6200 (- 2))) (Dec 1450 (- 2)) =
     Dec 34650 (- 2)"
  by code_simp

text \<open>
  Claim C5, as stated, fails. With gross pay 1000.02 and the reference rates the
  four returned deductions are 220.00, 50.00, 62.00 and 14.50, which sum to
  346.50, while the returned \<open>total_deductions\<close> is 346.51: the total is the
  rounding of the unrounded sum 346.506930. With gross pay 1000.10 the state
  tax 50.0050 is returned as 50.00: a tie goes to the even cent, not up.
\<close>

theorem C5_counterexample:
  "calculate_taxes (Dec 100002 (- 2)) reference_rates =
     Inr \<lparr>tx_federal_tax = Dec 22000 (- 2), tx_state_tax = Dec 5000 (- 2),
          tx_social_security = Dec 6200 (- 2), tx_medicare = Dec 1450 (- 2),
          tx_total_deductions = Dec 34651 (- 2), tx_net_pay = Dec 65351 (- 2)\<rparr>
   \<and> dadd (dadd (dadd (Dec 22000 (- 2)) (Dec 5000 (- 2))) (Dec 6200 (- 2))) (Dec 1450 (- 2)) =
       Dec 34650 (- 2)
   \<and> Dec 34651 (- 2) \<noteq> Dec 34650 (- 2)
   \<and> dval (Dec 34651 (- 2)) \<noteq> dval (Dec 34650 (- 2))
   \<and> map_sum id tx_state_tax (calculate_taxes (Dec 100010 (- 2)) reference_rates) =
       Inr (Dec 5000 (- 2))
   \<and> dmul (Dec 100010 (- 2)) (Dec 5 (- 2)) = Dec 500050 (- 4)"
proof -
  have "dmul (Dec 100010 (- 2)) (Dec 5 (- 2)) = Dec 500050 (- 4)"
    by code_simp
  then show ?thesis
    using taxes_100002 rounded_items_100002 taxes_100010 by (simp add: dval_def)
qed

text \<open>
  Claim C5, amended. Whenever \<open>calculate_taxes\<close> returns, the total of the
  deductions is the sum of the four unrounded deductions and the net pay is the
  gross pay minus that unrounded total; each of the six returned values is the
  \<^verbatim>\<open>quantize\<close> of its unrounded value, so the rounding comes after the
  summation and the subtraction, once per output. The returned total and net
  pay have two decimals and lie within half a cent of the unrounded ones.
\<close>

theorem C5_totals_rounded_after_summation:
  assumes "calculate_taxes gross tax_config = Inr r"
    and "unrounded_taxes gross tax_config = (F, S, SS, M, T, N)"
  shows "T = dadd (dadd (dadd F S) SS) M \<and> N = dsub gross T \<and>
         quantize F cent = Inr (tx_federal_tax r) \<and> quantize S cent = Inr (tx_state_tax r) \<and>
         quantize SS cent = Inr (tx_social_security r) \<and> quantize M cent = Inr (tx_medicare r) \<and>
         quantize T cent = Inr (tx_total_deductions r) \<and> quantize N cent = Inr (tx_net_pay r) \<and>
         expo (tx_total_deductions r) = - 2 \<and> \<bar>dval (tx_total_deductions r) - dval T\<bar> \<le> 1 / 200 \<and>
         expo (tx_net_pay r) = - 2 \<and> \<bar>dval (tx_net_pay r) - dval N\<bar> \<le> 1 / 200"
proof -
  note f = calculate_taxes_fields [OF assms]
  have "quantize T cent = Inr (tx_total_deductions r)" using f by simp
  note t = quantize_cent [OF this]
  have "quantize N cent = Inr (tx_net_pay r)" using f by simp
  note n = quantize_cent [OF this]
  show ?thesis
    using unrounded_taxes_totals [OF assms(2)] f t n by simp
qed

theorem C5_totals_rounded_after_summation_witness:
  "calculate_taxes (Dec 100002 (- 2)) reference_rates =
     Inr \<lparr>tx_federal_tax = Dec 22000 (- 2), tx_state_tax = Dec 5000 (- 2),
          tx_social_security = Dec 6200 (- 2), tx_medicare = Dec 1450 (- 2),
          tx_total_deductions = Dec 34651 (- 2), tx_net_pay = Dec 65351 (- 2)\<rparr>
   \<and> unrounded_taxes (Dec 100002 (- 2)) reference_rates =
     (Dec 2200044 (- 4), Dec 500010 (- 4), Dec 6200124 (- 5), Dec 14500290 (- 6),
      Dec 346506930 (- 6), Dec 653513070 (- 6))
   \<and> quantize (Dec 346506930 (- 6)) cent = Inr (Dec 34651 (- 2))
   \<and> quantize (Dec 653513070 (- 6)) cent = Inr (Dec 65351 (- 2))
   \<and> \<bar>dval (Dec 34651 (- 2)) - dval (Dec 346506930 (- 6))\<bar> \<le> 1 / 200"
proof -
  note w = C5_totals_rounded_after_summation
    [OF taxes_100002 unrounded_100002, unfolded tax_calculations.select_convs]
  show ?thesis
    using w taxes_100002 unrounded_100002 by blast
qed

section \<open>The employee processor: what it writes and when it raises\<close>

lemma send_payment_returns: "\<exists>r. snd (send_payment_via_plaid w d a i s) = Inr r"
  by (auto simp: send_payment_via_plaid_def payment_error_def split: sum.splits option.splits)

lemma send_payment_logged:
  "snd (send_payment_via_plaid w d a i s) = Inr payment_failed \<Longrightarrow>
   fst (send_payment_via_plaid w d a i s) = [''Plaid payment error'']"
  by (auto simp: send_payment_via_plaid_def payment_error_def payment_failed_def
      split: sum.splits option.splits)

lemma send_payment_tables:
  "employees d' = employees d \<Longrightarrow> bank_accounts d' = bank_accounts d \<Longrightarrow>
   send_payment_via_plaid w d' a i s = send_payment_via_plaid w d a i s"
  unfolding send_payment_via_plaid_def by (simp only:)

lemma fold_max_ge: "a \<le> fold max ids (a::int)"
proof (induction ids arbitrary: a)
  case Nil
  then show ?case by simp
next
  case (Cons x xs)
  have "a \<le> max x a" by simp
  also have "\<dots> \<le> fold max xs (max x a)" by (rule Cons.IH)
  finally show ?case by simp
qed

lemma fold_max_member: "x \<in> set ids \<Longrightarrow> x \<le> fold max ids (a::int)"
proof (induction ids arbitrary: a)
  case Nil
  then show ?case by simp
next
  case (Cons y ys)
  show ?case
  proof (cases "x = y")
    case True
    have "x \<le> max y a" using True by simp
    also have "\<dots> \<le> fold max ys (max y a)" by (rule fold_max_ge)
    finally show ?thesis by simp
  next
    case False
    then have "x \<in> set ys" using Cons.prems by simp
    then show ?thesis using Cons.IH by simp
  qed
qed

lemma next_id_fresh: "x \<in> set ids \<Longrightarrow> x \<noteq> next_id ids"
  using fold_max_member [of x ids 0] by (auto simp: next_id_def)

lemma replace_last:
  assumes "\<forall>x\<in>set ps. ps_id x \<noteq> k" and "ps_id p = k"
  shows "map (\<lambda>x. if ps_id x = k then p' else x) (ps @ [p]) = ps @ [p']"
  using assms by (induction ps) auto

lemma commit_payslip_last:
  assumes "payslips d1 = ps @ [p1]" and "\<forall>x\<in>set ps. ps_id x \<noteq> ps_id p1"
    and "ps_id p2 = ps_id p1"
  shows "commit_payslip d1 p2 = d1\<lparr>payslips := ps @ [p2]\<rparr>"
  using replace_last [of ps "ps_id p1" p1 p2] assms by (simp add: commit_payslip_def)

lemma employee_payslip_tables:
  "timesheets d' = timesheets d \<Longrightarrow>
   employee_payslip d' e run tc = employee_payslip d e run tc"
  by (simp add: employee_payslip_def eligible_timesheets_def)

lemma eligible_timesheets_status [simp]:
  "eligible_timesheets d e (run\<lparr>run_status := s\<rparr>) = eligible_timesheets d e run"
  by (simp add: eligible_timesheets_def)

lemma compute_pay_status [simp]:
  "compute_pay e (run\<lparr>run_status := s\<rparr>) = compute_pay e run"
  by (simp add: compute_pay_def fun_eq_iff)

lemma new_payslip_status [simp]:
  "new_payslip e (run\<lparr>run_status := s\<rparr>) = new_payslip e run"
  by (simp add: new_payslip_def fun_eq_iff)

lemma employee_payslip_status [simp]:
  "employee_payslip d e (run\<lparr>run_status := s\<rparr>) tc = employee_payslip d e run tc"
  by (simp add: employee_payslip_def)

lemma employee_payslip_Inr:
  assumes "employee_payslip d e run tc = Inr p0"
  obtains pay tax where
    "compute_pay e run (fst (aggregate_hours (eligible_timesheets d e run)))
       (snd (aggregate_hours (eligible_timesheets d e run))) = Inr pay"
    and "calculate_taxes (snd (snd pay)) tc = Inr tax"
    and "p0 = new_payslip e run (aggregate_hours (eligible_timesheets d e run)) pay tax"
  using assms by (auto simp: employee_payslip_def and_then_Inr Let_def)

lemma employee_payslip_followup:
  assumes "employee_payslip d e run tc = Inr p0"
  shows "without_followup p0 = p0"
  using assms by (elim employee_payslip_Inr) (simp add: new_payslip_def without_followup_def)

lemma employee_payslip_keys:
  assumes "employee_payslip d e run tc = Inr p0"
  shows "ps_employee_id p0 = emp_id e \<and> payroll_run_id p0 = run_id run"
  using assms by (elim employee_payslip_Inr) (simp add: new_payslip_def)

lemma payslip_columns_fields [simp]:
  "ps_id (payslip_columns p) = ps_id p"
  "ps_employee_id (payslip_columns p) = ps_employee_id p"
  "payroll_run_id (payslip_columns p) = payroll_run_id p"
  "ps_pay_period_start (payslip_columns p) = ps_pay_period_start p"
  "ps_pay_period_end (payslip_columns p) = ps_pay_period_end p"
  "ps_pay_date (payslip_columns p) = ps_pay_date p"
  "payment_status (payslip_columns p) = payment_status p"
  "payment_method (payslip_columns p) = payment_method p"
  "payment_reference (payslip_columns p) = payment_reference p"
  "pdf_url (payslip_columns p) = pdf_url p"
  "pdf_generated_at (payslip_columns p) = pdf_generated_at p"
  by (simp_all add: payslip_columns_def)

lemma payslip_columns_amounts:
  "regular_hours (payslip_columns p) = column 2 (regular_hours p)"
  "ps_overtime_hours (payslip_columns p) = column 2 (ps_overtime_hours p)"
  "regular_pay (payslip_columns p) = column 2 (regular_pay p)"
  "overtime_pay (payslip_columns p) = column 2 (overtime_pay p)"
  "gross_pay (payslip_columns p) = column 2 (gross_pay p)"
  "federal_tax (payslip_columns p) = column 2 (federal_tax p)"
  "state_tax (payslip_columns p) = column 2 (state_tax p)"
  "social_security (payslip_columns p) = column 2 (social_security p)"
  "medicare (payslip_columns p) = column 2 (medicare p)"
  "total_deductions (payslip_columns p) = column 2 (total_deductions p)"
  "net_pay (payslip_columns p) = column 2 (net_pay p)"
  by (simp_all add: payslip_columns_def)

lemma without_followup_columns:
  "without_followup (payslip_columns p) = payslip_columns (without_followup p)"
  by (simp add: without_followup_def payslip_columns_def)

lemma without_followup_fields [simp]:
  "ps_employee_id (without_followup p) = ps_employee_id p"
  "payroll_run_id (without_followup p) = payroll_run_id p"
  "ps_pay_period_start (without_followup p) = ps_pay_period_start p"
  "ps_pay_period_end (without_followup p) = ps_pay_period_end p"
  "regular_hours (without_followup p) = regular_hours p"
  "ps_overtime_hours (without_followup p) = ps_overtime_hours p"
  "regular_pay (without_followup p) = regular_pay p"
  "overtime_pay (without_followup p) = overtime_pay p"
  "gross_pay (without_followup p) = gross_pay p"
  "total_deductions (without_followup p) = total_deductions p"
  "net_pay (without_followup p) = net_pay p"
  by (simp_all add: without_followup_def)

lemma process_employee_payroll_fail:
  "employee_payslip d e run tc = Inl err \<Longrightarrow>
   process_employee_payroll w d e run tc = (d, Inl err)"
  by (simp add: process_employee_payroll_def)

lemma generate_payslip_pdf_last:
  assumes "payslips d1 = ps @ [p1]" and "\<forall>x\<in>set ps. ps_id x \<noteq> ps_id p1"
  shows "\<exists>p2. generate_payslip_pdf w d1 p1 e = (d1\<lparr>payslips := ps @ [p2]\<rparr>, p2) \<and>
              ps_id p2 = ps_id p1 \<and> without_followup p2 = without_followup p1 \<and>
              payment_status p2 = payment_status p1 \<and> payment_method p2 = payment_method p1 \<and>
              payment_reference p2 = payment_reference p1"
proof (cases "pdf_service_generate_payslip_pdf w p1 e")
  case None
  have "d1 = d1\<lparr>payslips := ps @ [p1]\<rparr>" using assms(1) by simp
  then have "generate_payslip_pdf w d1 p1 e = (d1\<lparr>payslips := ps @ [p1]\<rparr>, p1)"
    using None by (simp add: generate_payslip_pdf_def)
  then show ?thesis by blast
next
  case (Some url)
  define q where "q = p1\<lparr>pdf_url := Some url, pdf_generated_at := Some (utcnow w)\<rparr>"
  have "commit_payslip d1 q = d1\<lparr>payslips := ps @ [q]\<rparr>"
    by (rule commit_payslip_last [OF assms]) (simp add: q_def)
  then have "generate_payslip_pdf w d1 p1 e = (d1\<lparr>payslips := ps @ [q]\<rparr>, q)"
    using Some by (simp add: generate_payslip_pdf_def Let_def q_def)
  moreover have "ps_id q = ps_id p1" and "without_followup q = without_followup p1"
    and "payment_status q = payment_status p1" and "payment_method q = payment_method p1"
    and "payment_reference q = payment_reference p1"
    by (simp_all add: q_def without_followup_def)
  ultimately show ?thesis by blast
qed

lemma process_payment_last:
  assumes "payslips d2 = ps @ [p2]" and "\<forall>x\<in>set ps. ps_id x \<noteq> ps_id p2"
    and "\<forall>p. ps_employee_id p = ps_employee_id p2 \<longrightarrow> \<not> payment_commit_fails w p"
  shows "\<exists>p3 r. process_payment w d2 p2 e = (d2\<lparr>payslips := ps @ [p3]\<rparr>, Inr p3) \<and>
              snd (send_payment_via_plaid w d2 (net_pay p2) (emp_id e)
                     (payment_description w p2)) = Inr r \<and>
              p3 = p2\<lparr>payment_method := Some (pr_method r),
                      payment_reference := py_or (pr_payment_id r) (pr_reference r),
                      payment_status := pr_status r\<rparr>"
proof -
  obtain r where r: "snd (send_payment_via_plaid w d2 (net_pay p2) (emp_id e)
        (payment_description w p2)) = Inr r"
    using send_payment_returns by blast
  define q where "q = p2\<lparr>payment_method := Some (pr_method r),
         payment_reference := py_or (pr_payment_id r) (pr_reference r),
         payment_status := pr_status r\<rparr>"
  have "ps_employee_id q = ps_employee_id p2" by (simp add: q_def)
  then have taken: "\<not> payment_commit_fails w q" using assms(3) by blast
  have "commit_payslip d2 q = d2\<lparr>payslips := ps @ [q]\<rparr>"
    by (rule commit_payslip_last [OF assms(1,2)]) (simp add: q_def)
  then have "process_payment w d2 p2 e = (d2\<lparr>payslips := ps @ [q]\<rparr>, Inr q)"
    using r taken by (simp add: process_payment_def q_def [symmetric] Let_def)
  then show ?thesis using r q_def by blast
qed

lemma process_payment_rejected:
  assumes "\<forall>p. ps_employee_id p = ps_employee_id p2 \<longrightarrow> payment_commit_fails w p"
  shows "process_payment w d2 p2 e = (d2, Inl (NameError ''logger''))"
proof -
  obtain r where r: "snd (send_payment_via_plaid w d2 (net_pay p2) (emp_id e)
        (payment_description w p2)) = Inr r"
    using send_payment_returns by blast
  define q where "q = p2\<lparr>payment_method := Some (pr_method r),
         payment_reference := py_or (pr_payment_id r) (pr_reference r),
         payment_status := pr_status r\<rparr>"
  have "ps_employee_id q = ps_employee_id p2" by (simp add: q_def)
  then have "payment_commit_fails w q" using assms by blast
  then show ?thesis
    using r by (simp add: process_payment_def q_def [symmetric] Let_def)
qed

text \<open>
  The first steps of the employee processor: the computed payslip is written
  with a fresh key and read back, and the PDF step may add its two fields.
\<close>

lemma process_employee_payroll_stored:
  assumes "employee_payslip d e run tc = Inr p0"
  shows "\<exists>p1 p2. add_payslip d p0 = (d\<lparr>payslips := payslips d @ [p1]\<rparr>, p1) \<and>
           generate_payslip_pdf w (d\<lparr>payslips := payslips d @ [p1]\<rparr>) p1 e =
             (d\<lparr>payslips := payslips d @ [p2]\<rparr>, p2) \<and>
           (\<forall>x\<in>set (payslips d). ps_id x \<noteq> ps_id p2) \<and>
           without_followup p2 = payslip_columns p0 \<and>
           payment_status p2 = ''pending'' \<and> payment_method p2 = None \<and>
           payment_reference p2 = None"
proof -
  define k where "k = next_id (map ps_id (payslips d))"
  define p1 where "p1 = (payslip_columns p0)\<lparr>ps_id := k\<rparr>"
  define d1 where "d1 = d\<lparr>payslips := payslips d @ [p1]\<rparr>"
  have add: "add_payslip d p0 = (d1, p1)"
    by (simp add: add_payslip_def d1_def p1_def k_def Let_def)
  have fresh: "\<forall>x\<in>set (payslips d). ps_id x \<noteq> ps_id p1"
    using next_id_fresh [of _ "map ps_id (payslips d)"] by (auto simp: p1_def k_def)
  have d1: "payslips d1 = payslips d @ [p1]" by (simp add: d1_def)
  have wf0: "without_followup p0 = p0" by (rule employee_payslip_followup [OF assms])
  have "without_followup p1 = without_followup (payslip_columns p0)"
    by (simp add: p1_def without_followup_def)
  then have wf1: "without_followup p1 = payslip_columns p0"
    by (simp add: without_followup_columns wf0)
  obtain p2 where pdf: "generate_payslip_pdf w d1 p1 e = (d1\<lparr>payslips := payslips d @ [p2]\<rparr>, p2)"
    and id2: "ps_id p2 = ps_id p1" and wf2: "without_followup p2 = without_followup p1"
    and pay2: "payment_status p2 = payment_status p1" "payment_method p2 = payment_method p1"
      "payment_reference p2 = payment_reference p1"
    using generate_payslip_pdf_last [OF d1 fresh] by blast
  have "d1\<lparr>payslips := payslips d @ [p2]\<rparr> = d\<lparr>payslips := payslips d @ [p2]\<rparr>"
    by (simp add: d1_def)
  then have "generate_payslip_pdf w (d\<lparr>payslips := payslips d @ [p1]\<rparr>) p1 e =
      (d\<lparr>payslips := payslips d @ [p2]\<rparr>, p2)"
    using pdf by (simp add: d1_def)
  moreover have "payment_status p0 = ''pending''" "payment_method p0 = None"
    "payment_reference p0 = None"
    using assms by (elim employee_payslip_Inr, simp add: new_payslip_def)+
  then have "payment_status p2 = ''pending''" "payment_method p2 = None"
    "payment_reference p2 = None"
    using pay2 by (simp_all add: p1_def)
  ultimately show ?thesis
    using add fresh id2 wf1 wf2 unfolding d1_def by auto
qed

text \<open>
  The payslip that the employee processor returns, for an employee with a bank
  account and a commit of the payment fields that goes through: the stored
  payslip with its key, the PDF fields and the result of the payment call.
\<close>

lemma process_employee_payroll_payment:
  assumes "employee_payslip d e run tc = Inr p0" and "truthy (bank_account_id e)"
    and "\<forall>p. ps_employee_id p = emp_id e \<longrightarrow> \<not> payment_commit_fails w p"
  shows "\<exists>p r. process_employee_payroll w d e run tc =
                 (d\<lparr>payslips := payslips d @ [p]\<rparr>, Inr p) \<and>
               snd (send_payment_via_plaid w d (column 2 (net_pay p0)) (emp_id e)
                      (payment_description w p0)) = Inr r \<and>
               payment_status p = pr_status r \<and> payment_method p = Some (pr_method r) \<and>
               payment_reference p = py_or (pr_payment_id r) (pr_reference r) \<and>
               without_followup p = payslip_columns p0"
proof -
  obtain p1 p2 where add: "add_payslip d p0 = (d\<lparr>payslips := payslips d @ [p1]\<rparr>, p1)"
    and pdf: "generate_payslip_pdf w (d\<lparr>payslips := payslips d @ [p1]\<rparr>) p1 e =
             (d\<lparr>payslips := payslips d @ [p2]\<rparr>, p2)"
    and fresh2: "\<forall>x\<in>set (payslips d). ps_id x \<noteq> ps_id p2"
    and wf2: "without_followup p2 = payslip_columns p0"
    using process_employee_payroll_stored [OF assms(1), of w] by blast
  define d2 where "d2 = d\<lparr>payslips := payslips d @ [p2]\<rparr>"
  have d2: "payslips d2 = payslips d @ [p2]" by (simp add: d2_def)
  have "ps_employee_id p2 = ps_employee_id (without_followup p2)" by simp
  then have emp2: "ps_employee_id p2 = emp_id e"
    using employee_payslip_keys [OF assms(1)] by (simp add: wf2)
  have taken: "\<forall>p. ps_employee_id p = ps_employee_id p2 \<longrightarrow> \<not> payment_commit_fails w p"
    using assms(3) emp2 by simp
  have "net_pay p2 = net_pay (without_followup p2)"
    "ps_pay_period_start p2 = ps_pay_period_start (without_followup p2)"
    "ps_pay_period_end p2 = ps_pay_period_end (without_followup p2)"
    by simp_all
  then have same: "net_pay p2 = column 2 (net_pay p0)"
    "ps_pay_period_start p2 = ps_pay_period_start p0"
    "ps_pay_period_end p2 = ps_pay_period_end p0"
    by (simp_all add: wf2 payslip_columns_amounts)
  obtain p3 r where pay: "process_payment w d2 p2 e = (d2\<lparr>payslips := payslips d @ [p3]\<rparr>, Inr p3)"
    and r: "snd (send_payment_via_plaid w d2 (net_pay p2) (emp_id e)
                   (payment_description w p2)) = Inr r"
    and p3: "p3 = p2\<lparr>payment_method := Some (pr_method r),
                      payment_reference := py_or (pr_payment_id r) (pr_reference r),
                      payment_status := pr_status r\<rparr>"
    using process_payment_last [OF d2 fresh2 taken, of e] by blast
  have "send_payment_via_plaid w d2 (net_pay p2) (emp_id e) (payment_description w p2) =
        send_payment_via_plaid w d (column 2 (net_pay p0)) (emp_id e) (payment_description w p0)"
    using same send_payment_tables [of d2 d] by (simp add: d2_def payment_description_def)
  then have r0: "snd (send_payment_via_plaid w d (column 2 (net_pay p0)) (emp_id e)
                   (payment_description w p0)) = Inr r"
    using r by simp
  have "d2\<lparr>payslips := payslips d @ [p3]\<rparr> = d\<lparr>payslips := payslips d @ [p3]\<rparr>"
    by (simp add: d2_def)
  then have "process_employee_payroll w d e run tc = (d\<lparr>payslips := payslips d @ [p3]\<rparr>, Inr p3)"
    using assms(1,2) add pdf pay by (simp add: process_employee_payroll_def d2_def)
  moreover have "without_followup p3 = without_followup p2"
    by (simp add: p3 without_followup_def)
  moreover have "payment_status p3 = pr_status r" "payment_method p3 = Some (pr_method r)"
    "payment_reference p3 = py_or (pr_payment_id r) (pr_reference r)"
    by (simp_all add: p3)
  ultimately show ?thesis using r0 wf2 by auto
qed

text \<open>
  When the database rejects the commit of the payment fields, the handler of
  \<open>process_payment\<close> raises \<^verbatim>\<open>NameError\<close>: the employee processor raises it
  after the payslip is committed, and the row stays as the PDF step left it.
\<close>

lemma process_employee_payroll_rejected:
  assumes "employee_payslip d e run tc = Inr p0" and "truthy (bank_account_id e)"
    and "\<forall>p. ps_employee_id p = emp_id e \<longrightarrow> payment_commit_fails w p"
  shows "\<exists>p. process_employee_payroll w d e run tc =
               (d\<lparr>payslips := payslips d @ [p]\<rparr>, Inl (NameError ''logger'')) \<and>
             without_followup p = payslip_columns p0 \<and>
             payment_status p = ''pending'' \<and> payment_method p = None \<and>
             payment_reference p = None"
proof -
  obtain p1 p2 where add: "add_payslip d p0 = (d\<lparr>payslips := payslips d @ [p1]\<rparr>, p1)"
    and pdf: "generate_payslip_pdf w (d\<lparr>payslips := payslips d @ [p1]\<rparr>) p1 e =
             (d\<lparr>payslips := payslips d @ [p2]\<rparr>, p2)"
    and wf2: "without_followup p2 = payslip_columns p0"
    and pend: "payment_status p2 = ''pending''" "payment_method p2 = None"
      "payment_reference p2 = None"
    using process_employee_payroll_stored [OF assms(1), of w] by blast
  have "ps_employee_id p2 = ps_employee_id (without_followup p2)" by simp
  then have emp2: "ps_employee_id p2 = emp_id e"
    using employee_payslip_keys [OF assms(1)] by (simp add: wf2)
  have "\<forall>p. ps_employee_id p = ps_employee_id p2 \<longrightarrow> payment_commit_fails w p"
    using assms(3) emp2 by simp
  then have "process_payment w (d\<lparr>payslips := payslips d @ [p2]\<rparr>) p2 e =
      (d\<lparr>payslips := payslips d @ [p2]\<rparr>, Inl (NameError ''logger''))"
    by (rule process_payment_rejected)
  then have "process_employee_payroll w d e run tc =
      (d\<lparr>payslips := payslips d @ [p2]\<rparr>, Inl (NameError ''logger''))"
    using assms(1,2) add pdf by (simp add: process_employee_payroll_def)
  then show ?thesis using wf2 pend by blast
qed

lemma process_employee_payroll_ok:
  assumes "employee_payslip d e run tc = Inr p0"
    and "truthy (bank_account_id e) \<longrightarrow>
         (\<forall>p. ps_employee_id p = emp_id e \<longrightarrow> \<not> payment_commit_fails w p)"
  shows "\<exists>p. process_employee_payroll w d e run tc = (d\<lparr>payslips := payslips d @ [p]\<rparr>, Inr p) \<and>
             without_followup p = payslip_columns p0"
proof (cases "truthy (bank_account_id e)")
  case True
  then have "\<forall>p. ps_employee_id p = emp_id e \<longrightarrow> \<not> payment_commit_fails w p"
    using assms(2) by blast
  from process_employee_payroll_payment [OF assms(1) True this]
  show ?thesis by blast
next
  case False
  obtain p1 p2 where add: "add_payslip d p0 = (d\<lparr>payslips := payslips d @ [p1]\<rparr>, p1)"
    and pdf: "generate_payslip_pdf w (d\<lparr>payslips := payslips d @ [p1]\<rparr>) p1 e =
             (d\<lparr>payslips := payslips d @ [p2]\<rparr>, p2)"
    and wf2: "without_followup p2 = payslip_columns p0"
    using process_employee_payroll_stored [OF assms(1), of w] by blast
  have "process_employee_payroll w d e run tc = (d\<lparr>payslips := payslips d @ [p2]\<rparr>, Inr p2)"
    using assms(1) add pdf False by (simp add: process_employee_payroll_def)
  then show ?thesis using wf2 by blast
qed

section \<open>The loop over the employees and the run\<close>

lemma add_totals_followup [simp]: "add_totals acc (without_followup p) = add_totals acc p"
  by (cases acc) (simp add: without_followup_def)

lemma foldl_add_totals_followup:
  "foldl add_totals acc (map without_followup ps) = foldl add_totals acc ps"
  by (induction ps arbitrary: acc) simp_all

lemma process_employees_prefix:
  assumes "\<forall>e\<in>set es1. \<exists>p. employee_payslip d e run tc = Inr p"
    and "\<forall>e\<in>set es1. truthy (bank_account_id e) \<longrightarrow>
           (\<forall>p. ps_employee_id p = emp_id e \<longrightarrow> \<not> payment_commit_fails w p)"
  shows "\<exists>ps. process_employees w d run tc (es1 @ rest) acc =
               process_employees w (d\<lparr>payslips := payslips d @ ps\<rparr>) run tc rest
                 (foldl add_totals acc ps) \<and>
             map without_followup ps =
               map (\<lambda>e. payslip_columns (projr (employee_payslip d e run tc))) es1"
  using assms
proof (induction es1 arbitrary: d acc)
  case Nil
  have "d\<lparr>payslips := payslips d @ []\<rparr> = d" by simp
  then show ?case by (metis append_Nil foldl_Nil list.simps(8))
next
  case (Cons e es)
  obtain p0 where p0: "employee_payslip d e run tc = Inr p0"
    using Cons.prems(1) by auto
  have taken: "truthy (bank_account_id e) \<longrightarrow>
      (\<forall>p. ps_employee_id p = emp_id e \<longrightarrow> \<not> payment_commit_fails w p)"
    using Cons.prems(2) by simp
  obtain p where p: "process_employee_payroll w d e run tc =
      (d\<lparr>payslips := payslips d @ [p]\<rparr>, Inr p)" and wf: "without_followup p = payslip_columns p0"
    using process_employee_payroll_ok [OF p0 taken] by blast
  define d' where "d' = d\<lparr>payslips := payslips d @ [p]\<rparr>"
  have same: "\<And>x. employee_payslip d' x run tc = employee_payslip d x run tc"
    by (rule employee_payslip_tables) (simp add: d'_def)
  have ok': "\<forall>x\<in>set es. \<exists>q. employee_payslip d' x run tc = Inr q"
    using Cons.prems(1) by (simp add: same)
  have taken': "\<forall>e\<in>set es. truthy (bank_account_id e) \<longrightarrow>
      (\<forall>p. ps_employee_id p = emp_id e \<longrightarrow> \<not> payment_commit_fails w p)"
    using Cons.prems(2) by simp
  from Cons.IH [OF ok' taken', of "add_totals acc p"]
  obtain ps where ps: "process_employees w d' run tc (es @ rest) (add_totals acc p) =
        process_employees w (d'\<lparr>payslips := payslips d' @ ps\<rparr>) run tc rest
          (foldl add_totals (add_totals acc p) ps)"
    and wfs: "map without_followup ps =
        map (\<lambda>x. payslip_columns (projr (employee_payslip d' x run tc))) es"
    by blast
  have d'': "d'\<lparr>payslips := payslips d' @ ps\<rparr> = d\<lparr>payslips := payslips d @ (p # ps)\<rparr>"
    by (simp add: d'_def)
  have "process_employees w d run tc ((e # es) @ rest) acc =
        process_employees w (d\<lparr>payslips := payslips d @ (p # ps)\<rparr>) run tc rest
          (foldl add_totals acc (p # ps))"
    using p ps d'' by (simp add: d'_def)
  moreover have "map without_followup (p # ps) =
      map (\<lambda>x. payslip_columns (projr (employee_payslip d x run tc))) (e # es)"
    using wf wfs p0 by (simp add: same)
  ultimately show ?case by blast
qed

lemma process_employees_all_ok:
  assumes "\<forall>e\<in>set es. \<exists>p. employee_payslip d e run tc = Inr p"
    and "\<forall>e\<in>set es. truthy (bank_account_id e) \<longrightarrow>
           (\<forall>p. ps_employee_id p = emp_id e \<longrightarrow> \<not> payment_commit_fails w p)"
  shows "\<exists>ps. process_employees w d run tc es acc =
               (d\<lparr>payslips := payslips d @ ps\<rparr>, Inr (foldl add_totals acc ps)) \<and>
             map without_followup ps =
               map (\<lambda>e. payslip_columns (projr (employee_payslip d e run tc))) es"
  using process_employees_prefix [OF assms, of "[]" acc] by simp

lemma process_employees_first_failure:
  assumes "\<forall>x\<in>set es1. \<exists>p. employee_payslip d x run tc = Inr p"
    and "\<forall>e\<in>set es1. truthy (bank_account_id e) \<longrightarrow>
           (\<forall>p. ps_employee_id p = emp_id e \<longrightarrow> \<not> payment_commit_fails w p)"
    and "employee_payslip d e run tc = Inl err"
  shows "\<exists>ps. process_employees w d run tc (es1 @ e # es2) acc =
               (d\<lparr>payslips := payslips d @ ps\<rparr>, Inl err) \<and>
             map without_followup ps =
               map (\<lambda>e. payslip_columns (projr (employee_payslip d e run tc))) es1"
proof -
  obtain ps where ps: "process_employees w d run tc (es1 @ e # es2) acc =
        process_employees w (d\<lparr>payslips := payslips d @ ps\<rparr>) run tc (e # es2)
          (foldl add_totals acc ps)"
    and wfs: "map without_followup ps =
        map (\<lambda>e. payslip_columns (projr (employee_payslip d e run tc))) es1"
    using process_employees_prefix [OF assms(1,2)] by blast
  define d' where "d' = d\<lparr>payslips := payslips d @ ps\<rparr>"
  have "employee_payslip d' e run tc = Inl err"
    using assms(3) employee_payslip_tables [of d' d e run tc] by (simp add: d'_def)
  then have "process_employee_payroll w d' e run tc = (d', Inl err)"
    by (rule process_employee_payroll_fail)
  then have "process_employees w d' run tc (e # es2) (foldl add_totals acc ps) = (d', Inl err)"
    by simp
  then show ?thesis using ps wfs by (auto simp: d'_def)
qed

lemma process_employees_rejected:
  assumes "\<forall>x\<in>set es1. \<exists>p. employee_payslip d x run tc = Inr p"
    and "\<forall>e\<in>set es1. truthy (bank_account_id e) \<longrightarrow>
           (\<forall>p. ps_employee_id p = emp_id e \<longrightarrow> \<not> payment_commit_fails w p)"
    and "employee_payslip d e run tc = Inr p0" and "truthy (bank_account_id e)"
    and "\<forall>p. ps_employee_id p = emp_id e \<longrightarrow> payment_commit_fails w p"
  shows "\<exists>ps p. process_employees w d run tc (es1 @ e # es2) acc =
               (d\<lparr>payslips := payslips d @ ps @ [p]\<rparr>, Inl (NameError ''logger'')) \<and>
             map without_followup ps =
               map (\<lambda>e. payslip_columns (projr (employee_payslip d e run tc))) es1 \<and>
             without_followup p = payslip_columns p0 \<and> payment_status p = ''pending''"
proof -
  obtain ps where ps: "process_employees w d run tc (es1 @ e # es2) acc =
        process_employees w (d\<lparr>payslips := payslips d @ ps\<rparr>) run tc (e # es2)
          (foldl add_totals acc ps)"
    and wfs: "map without_followup ps =
        map (\<lambda>e. payslip_columns (projr (employee_payslip d e run tc))) es1"
    using process_employees_prefix [OF assms(1,2)] by blast
  define d' where "d' = d\<lparr>payslips := payslips d @ ps\<rparr>"
  have "employee_payslip d' e run tc = Inr p0"
    using assms(3) employee_payslip_tables [of d' d e run tc] by (simp add: d'_def)
  from process_employee_payroll_rejected [OF this assms(4,5)]
  obtain p where p: "process_employee_payroll w d' e run tc =
      (d'\<lparr>payslips := payslips d' @ [p]\<rparr>, Inl (NameError ''logger''))"
    and wf: "without_followup p = payslip_columns p0" and pend: "payment_status p = ''pending''"
    by blast
  have "d'\<lparr>payslips := payslips d' @ [p]\<rparr> = d\<lparr>payslips := payslips d @ ps @ [p]\<rparr>"
    by (simp add: d'_def)
  then have "process_employees w d' run tc (e # es2) (foldl add_totals acc ps) =
      (d\<lparr>payslips := payslips d @ ps @ [p]\<rparr>, Inl (NameError ''logger''))"
    using p by simp
  then show ?thesis using ps wfs wf pend unfolding d'_def by metis
qed

lemma commit_run_tables [simp]:
  "employees (commit_run d r) = employees d"
  "timesheets (commit_run d r) = timesheets d"
  "tax_configurations (commit_run d r) = tax_configurations d"
  "payslips (commit_run d r) = payslips d"
  "bank_accounts (commit_run d r) = bank_accounts d"
  by (simp_all add: commit_run_def)

lemma commit_run_payslips:
  "commit_run (d\<lparr>payslips := ps\<rparr>) r = (commit_run d r)\<lparr>payslips := ps\<rparr>"
  by (simp add: commit_run_def)

lemma commit_run_again:
  "run_id r' = run_id r \<Longrightarrow> commit_run (commit_run d r) r' = commit_run d r'"
  by (simp add: commit_run_def comp_def cong: if_cong)

lemma commit_run_lookup:
  "run_id r = k \<Longrightarrow>
   filter (\<lambda>x. run_id x = k) (payroll_runs (commit_run d r)) =
     map (\<lambda>x. r) (filter (\<lambda>x. run_id x = k) (payroll_runs d))"
  by (induction "payroll_runs d" arbitrary: d) (auto simp: commit_run_def filter_map comp_def)

lemma run_employees_commit [simp]:
  "run_employees (commit_run d r) run = run_employees d run"
  by (simp add: run_employees_def)

lemma active_tax_configs_commit [simp]:
  "active_tax_configs (commit_run d r) run = active_tax_configs d run"
  by (simp add: active_tax_configs_def)

lemma run_employees_status [simp]:
  "run_employees d (run\<lparr>run_status := s\<rparr>) = run_employees d run"
  by (simp add: run_employees_def)

lemma active_tax_configs_status [simp]:
  "active_tax_configs d (run\<lparr>run_status := s\<rparr>) = active_tax_configs d run"
  by (simp add: active_tax_configs_def)

lemma employee_payslip_commit [simp]:
  "employee_payslip (commit_run d r) e run tc = employee_payslip d e run tc"
  by (rule employee_payslip_tables) simp

lemma found_key:
  assumes "filter (\<lambda>r. run_id r = k) (payroll_runs d) = [found]"
  shows "run_id found = k"
proof -
  have "found \<in> set (filter (\<lambda>r. run_id r = k) (payroll_runs d))"
    using assms by simp
  then show ?thesis by simp
qed

lemma process_payroll_found:
  assumes "filter (\<lambda>r. run_id r = k) (payroll_runs d) = [found]"
  shows "process_payroll w d k =
     (case process_payroll_try w (commit_run d (found\<lparr>run_status := PROCESSING\<rparr>))
             (found\<lparr>run_status := PROCESSING\<rparr>) of
        (d2, Inr summary) \<Rightarrow> (d2, Inr summary)
      | (d2, Inl err) \<Rightarrow> (commit_run d2 (found\<lparr>run_status := FAILED\<rparr>), Inl err))"
  using assms by (simp add: process_payroll_def scalar_one_or_none_def Let_def)

lemma process_payroll_raises:
  assumes found: "filter (\<lambda>r. run_id r = k) (payroll_runs d) = [found]"
    and tc: "active_tax_configs d found = [tc]"
    and loop: "process_employees w (commit_run d (found\<lparr>run_status := PROCESSING\<rparr>))
        (found\<lparr>run_status := PROCESSING\<rparr>) tc (run_employees d found)
        (Dec 0 0, Dec 0 0, Dec 0 0) =
        ((commit_run d (found\<lparr>run_status := PROCESSING\<rparr>))\<lparr>payslips := payslips d @ ps\<rparr>, Inl err)"
  shows "process_payroll w d k =
           (commit_run (d\<lparr>payslips := payslips d @ ps\<rparr>) (found\<lparr>run_status := FAILED\<rparr>), Inl err)"
proof -
  define run where "run = found\<lparr>run_status := PROCESSING\<rparr>"
  define d1 where "d1 = commit_run d run"
  have body: "process_payroll_try w d1 run = (d1\<lparr>payslips := payslips d @ ps\<rparr>, Inl err)"
    using tc loop
    by (simp add: process_payroll_try_def d1_def run_def scalar_one_or_none_def)
  have "commit_run (d1\<lparr>payslips := payslips d @ ps\<rparr>) (found\<lparr>run_status := FAILED\<rparr>) =
        commit_run (d\<lparr>payslips := payslips d @ ps\<rparr>) (found\<lparr>run_status := FAILED\<rparr>)"
    by (simp add: d1_def run_def commit_run_payslips commit_run_again)
  then show ?thesis
    using body by (simp add: process_payroll_found [OF found] d1_def run_def)
qed

lemma process_payroll_failure:
  assumes found: "filter (\<lambda>r. run_id r = k) (payroll_runs d) = [found]"
    and tc: "active_tax_configs d found = [tc]"
    and emps: "run_employees d found = es1 @ e # es2"
    and ok: "\<forall>x\<in>set es1. \<exists>p. employee_payslip d x found tc = Inr p"
    and taken: "\<forall>x\<in>set es1. truthy (bank_account_id x) \<longrightarrow>
           (\<forall>p. ps_employee_id p = emp_id x \<longrightarrow> \<not> payment_commit_fails w p)"
    and fail: "employee_payslip d e found tc = Inl err"
  shows "\<exists>ps. process_payroll w d k =
               (commit_run (d\<lparr>payslips := payslips d @ ps\<rparr>) (found\<lparr>run_status := FAILED\<rparr>),
                Inl err) \<and>
             map without_followup ps =
               map (\<lambda>x. payslip_columns (projr (employee_payslip d x found tc))) es1"
proof -
  define run where "run = found\<lparr>run_status := PROCESSING\<rparr>"
  define d1 where "d1 = commit_run d run"
  have ok1: "\<forall>x\<in>set es1. \<exists>p. employee_payslip d1 x run tc = Inr p"
    using ok by (simp add: d1_def run_def)
  have fail1: "employee_payslip d1 e run tc = Inl err"
    using fail by (simp add: d1_def run_def)
  obtain ps where loop: "process_employees w d1 run tc (es1 @ e # es2) (Dec 0 0, Dec 0 0, Dec 0 0) =
        (d1\<lparr>payslips := payslips d1 @ ps\<rparr>, Inl err)"
    and wfs: "map without_followup ps =
        map (\<lambda>x. payslip_columns (projr (employee_payslip d1 x run tc))) es1"
    using process_employees_first_failure [OF ok1 taken fail1] by blast
  have "process_payroll w d k =
      (commit_run (d\<lparr>payslips := payslips d @ ps\<rparr>) (found\<lparr>run_status := FAILED\<rparr>), Inl err)"
    by (rule process_payroll_raises [OF found tc]) (use loop emps in \<open>simp add: d1_def run_def\<close>)
  moreover have "map without_followup ps =
      map (\<lambda>x. payslip_columns (projr (employee_payslip d x found tc))) es1"
    using wfs by (simp add: d1_def run_def)
  ultimately show ?thesis by blast
qed

lemma process_payroll_rejected:
  assumes found: "filter (\<lambda>r. run_id r = k) (payroll_runs d) = [found]"
    and tc: "active_tax_configs d found = [tc]"
    and emps: "run_employees d found = es1 @ e # es2"
    and ok: "\<forall>x\<in>set es1. \<exists>p. employee_payslip d x found tc = Inr p"
    and taken: "\<forall>x\<in>set es1. truthy (bank_account_id x) \<longrightarrow>
           (\<forall>p. ps_employee_id p = emp_id x \<longrightarrow> \<not> payment_commit_fails w p)"
    and e: "employee_payslip d e found tc = Inr p0" "truthy (bank_account_id e)"
    and rejected: "\<forall>p. ps_employee_id p = emp_id e \<longrightarrow> payment_commit_fails w p"
  shows "\<exists>ps p. process_payroll w d k =
               (commit_run (d\<lparr>payslips := payslips d @ ps @ [p]\<rparr>)
                  (found\<lparr>run_status := FAILED\<rparr>), Inl (NameError ''logger'')) \<and>
             map without_followup ps =
               map (\<lambda>x. payslip_columns (projr (employee_payslip d x found tc))) es1 \<and>
             without_followup p = payslip_columns p0 \<and> payment_status p = ''pending''"
proof -
  define run where "run = found\<lparr>run_status := PROCESSING\<rparr>"
  define d1 where "d1 = commit_run d run"
  have ok1: "\<forall>x\<in>set es1. \<exists>p. employee_payslip d1 x run tc = Inr p"
    using ok by (simp add: d1_def run_def)
  have e1: "employee_payslip d1 e run tc = Inr p0"
    using e(1) by (simp add: d1_def run_def)
  obtain ps p where loop:
      "process_employees w d1 run tc (es1 @ e # es2) (Dec 0 0, Dec 0 0, Dec 0 0) =
        (d1\<lparr>payslips := payslips d1 @ ps @ [p]\<rparr>, Inl (NameError ''logger''))"
    and wfs: "map without_followup ps =
        map (\<lambda>x. payslip_columns (projr (employee_payslip d1 x run tc))) es1"
    and wf: "without_followup p = payslip_columns p0" and pend: "payment_status p = ''pending''"
    using process_employees_rejected [OF ok1 taken e1 e(2) rejected] by blast
  have "process_payroll w d k =
      (commit_run (d\<lparr>payslips := payslips d @ (ps @ [p])\<rparr>) (found\<lparr>run_status := FAILED\<rparr>),
       Inl (NameError ''logger''))"
    by (rule process_payroll_raises [OF found tc]) (use loop emps in \<open>simp add: d1_def run_def\<close>)
  moreover have "map without_followup ps =
      map (\<lambda>x. payslip_columns (projr (employee_payslip d x found tc))) es1"
    using wfs by (simp add: d1_def run_def)
  ultimately show ?thesis using wf pend by auto
qed

lemma process_payroll_success:
  assumes found: "filter (\<lambda>r. run_id r = k) (payroll_runs d) = [found]"
    and tc: "active_tax_configs d found = [tc]"
    and ok: "\<forall>x\<in>set (run_employees d found). \<exists>p. employee_payslip d x found tc = Inr p"
    and taken: "\<forall>x\<in>set (run_employees d found). truthy (bank_account_id x) \<longrightarrow>
           (\<forall>p. ps_employee_id p = emp_id x \<longrightarrow> \<not> payment_commit_fails w p)"
  shows "\<exists>ps g n t.
           process_payroll w d k =
             (commit_run (d\<lparr>payslips := payslips d @ ps\<rparr>)
                (found\<lparr>total_gross_pay := g, total_net_pay := n, total_taxes := t,
                   run_status := COMPLETED, processed_at := Some (utcnow w)\<rparr>),
              Inr \<lparr>sm_payroll_run_id = k, sm_status = ''completed'',
                   sm_total_employees = length (run_employees d found), sm_total_gross_pay = g,
                   sm_total_net_pay = n, sm_total_taxes = t\<rparr>) \<and>
           map without_followup ps =
             map (\<lambda>x. payslip_columns (projr (employee_payslip d x found tc)))
               (run_employees d found) \<and>
           (g, n, t) = foldl add_totals (Dec 0 0, Dec 0 0, Dec 0 0) ps"
proof -
  define run where "run = found\<lparr>run_status := PROCESSING\<rparr>"
  define d1 where "d1 = commit_run d run"
  define es where "es = run_employees d found"
  have ok1: "\<forall>x\<in>set es. \<exists>p. employee_payslip d1 x run tc = Inr p"
    using ok by (simp add: d1_def run_def es_def)
  have taken1: "\<forall>x\<in>set es. truthy (bank_account_id x) \<longrightarrow>
           (\<forall>p. ps_employee_id p = emp_id x \<longrightarrow> \<not> payment_commit_fails w p)"
    using taken by (simp add: es_def)
  obtain ps where loop: "process_employees w d1 run tc es (Dec 0 0, Dec 0 0, Dec 0 0) =
        (d1\<lparr>payslips := payslips d1 @ ps\<rparr>, Inr (foldl add_totals (Dec 0 0, Dec 0 0, Dec 0 0) ps))"
    and wfs: "map without_followup ps =
        map (\<lambda>x. payslip_columns (projr (employee_payslip d1 x run tc))) es"
    using process_employees_all_ok [OF ok1 taken1] by blast
  obtain g n t where gnt: "foldl add_totals (Dec 0 0, Dec 0 0, Dec 0 0) ps = (g, n, t)"
    by (cases "foldl add_totals (Dec 0 0, Dec 0 0, Dec 0 0) ps") auto
  define final where "final = found\<lparr>total_gross_pay := g, total_net_pay := n, total_taxes := t,
                   run_status := COMPLETED, processed_at := Some (utcnow w)\<rparr>"
  have fin: "run\<lparr>total_gross_pay := g, total_net_pay := n, total_taxes := t,
                   run_status := COMPLETED, processed_at := Some (utcnow w)\<rparr> = final"
    by (simp add: run_def final_def)
  have key: "run_id found = k" by (rule found_key [OF found])
  have body: "process_payroll_try w d1 run =
      (commit_run (d1\<lparr>payslips := payslips d1 @ ps\<rparr>) final,
       Inr \<lparr>sm_payroll_run_id = k, sm_status = ''completed'',
            sm_total_employees = length es, sm_total_gross_pay = g,
            sm_total_net_pay = n, sm_total_taxes = t\<rparr>)"
    using tc loop gnt fin key
    by (simp add: process_payroll_try_def d1_def run_def es_def scalar_one_or_none_def)
  have "commit_run (d1\<lparr>payslips := payslips d1 @ ps\<rparr>) final =
        commit_run (d\<lparr>payslips := payslips d @ ps\<rparr>) final"
    by (simp add: d1_def run_def final_def commit_run_payslips commit_run_again)
  then have "process_payroll w d k =
      (commit_run (d\<lparr>payslips := payslips d @ ps\<rparr>) final,
       Inr \<lparr>sm_payroll_run_id = k, sm_status = ''completed'',
            sm_total_employees = length es, sm_total_gross_pay = g,
            sm_total_net_pay = n, sm_total_taxes = t\<rparr>)"
    using body by (simp add: process_payroll_found [OF found] d1_def run_def)
  moreover have "map without_followup ps =
      map (\<lambda>x. payslip_columns (projr (employee_payslip d x found tc))) es"
    using wfs by (simp add: d1_def run_def)
  ultimately show ?thesis using gnt unfolding final_def es_def by metis
qed

section \<open>Evaluating one employee\<close>

lemma employee_payslip_eval:
  assumes "aggregate_hours (eligible_timesheets d e run) = hours"
    and "compute_pay e run (fst hours) (snd hours) = Inr pay"
    and "calculate_taxes (snd (snd pay)) tc = Inr tax"
  shows "employee_payslip d e run tc = Inr (new_payslip e run hours pay tax)"
  using assms by (simp add: employee_payslip_def and_then_def)

lemma compute_pay_hourly:
  assumes "salary_type e = HOURLY" and "hourly_rate e = Some rate"
  shows "compute_pay e run h ot =
     Inr (dmul h rate, dmul (dmul ot rate) (Dec 15 (- 1)),
          dadd (dmul h rate) (dmul (dmul ot rate) (Dec 15 (- 1))))"
  using assms by (simp add: compute_pay_def and_then_def)

lemma compute_pay_no_rate:
  assumes "salary_type e = HOURLY" and "hourly_rate e = None"
  shows "compute_pay e run h ot = Inl TypeError"
  using assms by (simp add: compute_pay_def and_then_def)

lemma compute_pay_fixed:
  assumes "salary_type e = FIXED" and "ddiv (base_salary e) (Dec 365 0) = Inr daily"
  shows "compute_pay e run h ot =
     Inr (dmul daily (Dec (timedelta_days (pay_period_end run) (pay_period_start run) + 1) 0),
          Dec 0 0,
          dadd (dmul daily (Dec (timedelta_days (pay_period_end run) (pay_period_start run) + 1) 0))
            (Dec 0 0))"
  using assms by (simp add: compute_pay_def and_then_def Let_def)

section \<open>The example data, evaluated\<close>

lemma world0_takes_commits [simp]: "\<not> payment_commit_fails world0 p"
  by (simp add: world0_def)

lemma hours1:
  "aggregate_hours (eligible_timesheets example_db employee1 run1) =
     (Dec 4000 (- 2), Dec 1000 (- 2))"
  by code_simp

lemma pay1: "compute_pay employee1 run1 (Dec 4000 (- 2)) (Dec 1000 (- 2)) =
   Inr (Dec 10000000 (- 4), Dec 37500000 (- 5), Dec 137500000 (- 5))"
proof -
  have "dmul (Dec 4000 (- 2)) (Dec 2500 (- 2)) = Dec 10000000 (- 4)"
    and "dmul (dmul (Dec 1000 (- 2)) (Dec 2500 (- 2))) (Dec 15 (- 1)) = Dec 37500000 (- 5)"
    and "dadd (Dec 10000000 (- 4)) (Dec 37500000 (- 5)) = Dec 137500000 (- 5)"
    by code_simp+
  moreover have "salary_type employee1 = HOURLY" and "hourly_rate employee1 = Some (Dec 2500 (- 2))"
    by (simp_all add: employee1_def)
  ultimately show ?thesis
    by (simp add: compute_pay_hourly)
qed

lemma tax1: "calculate_taxes (Dec 137500000 (- 5)) reference_rates =
   Inr \<lparr>tx_federal_tax = Dec 30250 (- 2), tx_state_tax = Dec 6875 (- 2),
        tx_social_security = Dec 8525 (- 2), tx_medicare = Dec 1994 (- 2),
        tx_total_deductions = Dec 47644 (- 2), tx_net_pay = Dec 89856 (- 2)\<rparr>"
  by code_simp

lemma employee1_ok: "\<exists>p. employee_payslip example_db employee1 run1 reference_rates = Inr p"
  using employee_payslip_eval [OF hours1, of _ reference_rates] pay1 tax1 by simp

lemma hours2: "aggregate_hours (eligible_timesheets example_db employee2 run1) = (Dec 0 0, Dec 0 0)"
  by code_simp

lemma pay2: "compute_pay employee2 run1 (Dec 0 0) (Dec 0 0) =
   Inr (Dec 140000 (- 2), Dec 0 0, Dec 140000 (- 2))"
proof -
  have "ddiv (Dec 3650000 (- 2)) (Dec 365 0) = Inr (Dec 10000 (- 2))"
    and "timedelta_days (13 * day) 0 + 1 = 14"
    and "dmul (Dec 10000 (- 2)) (Dec 14 0) = Dec 140000 (- 2)"
    and "dadd (Dec 140000 (- 2)) (Dec 0 0) = Dec 140000 (- 2)"
    by code_simp+
  moreover have "salary_type employee2 = FIXED" and "base_salary employee2 = Dec 3650000 (- 2)"
    by (simp_all add: employee2_def)
  moreover have "pay_period_end run1 = 13 * day" and "pay_period_start run1 = 0"
    by (simp_all add: run1_def)
  ultimately show ?thesis
    by (simp add: compute_pay_fixed [where daily = "Dec 10000 (- 2)"])
qed

lemma employee3_fails: "employee_payslip example_db employee3 run1 reference_rates = Inl TypeError"
proof -
  have "salary_type employee3 = HOURLY" and "hourly_rate employee3 = None"
    by (simp_all add: employee3_def)
  then show ?thesis
    by (simp add: employee_payslip_def and_then_def compute_pay_no_rate)
qed

lemma employee2_ok: "\<exists>p. employee_payslip example_db employee2 run1 reference_rates = Inr p"
proof -
  have "calculate_taxes (Dec 140000 (- 2)) reference_rates =
     Inr \<lparr>tx_federal_tax = Dec 30800 (- 2), tx_state_tax = Dec 7000 (- 2),
          tx_social_security = Dec 8680 (- 2), tx_medicare = Dec 2030 (- 2),
          tx_total_deductions = Dec 48510 (- 2), tx_net_pay = Dec 91490 (- 2)\<rparr>"
    by code_simp
  then show ?thesis
    using employee_payslip_eval [OF hours2, of _ reference_rates] pay2 by simp
qed

lemma hours4: "aggregate_hours (eligible_timesheets example_db employee4 run1) = (Dec 0 0, Dec 0 0)"
  by code_simp

lemma pay4: "compute_pay employee4 run1 (Dec 0 0) (Dec 0 0) =
   Inr (Dec 0 (- 2), Dec 0 (- 3), Dec 0 (- 3))"
proof -
  have "dmul (Dec 0 0) (Dec 3000 (- 2)) = Dec 0 (- 2)"
    and "dmul (Dec 0 (- 2)) (Dec 15 (- 1)) = Dec 0 (- 3)"
    and "dadd (Dec 0 (- 2)) (Dec 0 (- 3)) = Dec 0 (- 3)"
    by code_simp+
  moreover have "salary_type employee4 = HOURLY" and "hourly_rate employee4 = Some (Dec 3000 (- 2))"
    by (simp_all add: employee4_def)
  ultimately show ?thesis
    by (simp add: compute_pay_hourly)
qed

lemma employee4_ok: "\<exists>p. employee_payslip example_db employee4 run1 reference_rates = Inr p"
proof -
  have "calculate_taxes (Dec 0 (- 3)) reference_rates =
     Inr \<lparr>tx_federal_tax = Dec 0 (- 2), tx_state_tax = Dec 0 (- 2),
          tx_social_security = Dec 0 (- 2), tx_medicare = Dec 0 (- 2),
          tx_total_deductions = Dec 0 (- 2), tx_net_pay = Dec 0 (- 2)\<rparr>"
    by code_simp
  then show ?thesis
    using employee_payslip_eval [OF hours4, of _ reference_rates] pay4 by simp
qed

lemma example_db_run: "filter (\<lambda>r. run_id r = 1) (payroll_runs example_db) = [run1]"
  by (simp add: example_db_def run1_def)

lemma example_db_configs: "active_tax_configs example_db run1 = [reference_rates]"
  by (simp add: example_db_def active_tax_configs_def reference_rates_def run1_def)

lemma example_db_employees:
  "run_employees example_db run1 = [employee1, employee2] @ employee3 # [employee4, employee5]"
  by (simp add: example_db_def run_employees_def run1_def employee1_def employee2_def
      employee3_def employee4_def employee5_def)

lemma example_db_before_failure:
  "\<forall>x\<in>set [employee1, employee2]. \<exists>p. employee_payslip example_db x run1 reference_rates = Inr p"
  using employee1_ok employee2_ok by simp

lemma example_db_taken:
  "\<forall>x\<in>set [employee1, employee2]. truthy (bank_account_id x) \<longrightarrow>
     (\<forall>p. ps_employee_id p = emp_id x \<longrightarrow> \<not> payment_commit_fails world0 p)"
  by simp

section \<open>Claims about the run orchestrator\<close>

lemma payslips_of_employees:
  assumes "map without_followup ps =
      map (\<lambda>x. payslip_columns (projr (employee_payslip d x run tc))) es"
    and "\<forall>x\<in>set es. \<exists>p. employee_payslip d x run tc = Inr p"
  shows "length ps = length es \<and> map ps_employee_id ps = map emp_id es \<and>
         map payroll_run_id ps = map (\<lambda>x. run_id run) es"
proof -
  have len: "length ps = length es"
    using assms(1) by (metis length_map)
  have keys: "\<And>x. x \<in> set es \<Longrightarrow>
      ps_employee_id (projr (employee_payslip d x run tc)) = emp_id x \<and>
      payroll_run_id (projr (employee_payslip d x run tc)) = run_id run"
    using assms(2) employee_payslip_keys by fastforce
  have "map ps_employee_id ps = map ps_employee_id (map without_followup ps)"
    by (simp add: without_followup_def)
  also have "\<dots> = map emp_id es"
    unfolding assms(1) using keys by simp
  finally have a: "map ps_employee_id ps = map emp_id es" .
  have "map payroll_run_id ps = map payroll_run_id (map without_followup ps)"
    by (simp add: without_followup_def)
  also have "\<dots> = map (\<lambda>x. run_id run) es"
    unfolding assms(1) using keys by simp
  finally show ?thesis using len a by simp
qed

lemma run_row_after_commit:
  assumes "filter (\<lambda>r. run_id r = k) (payroll_runs d) = [found]" and "run_id r = k"
  shows "filter (\<lambda>x. run_id x = k) (payroll_runs (commit_run (d\<lparr>payslips := ps\<rparr>) r)) = [r]"
  using commit_run_lookup [OF assms(2), of "d\<lparr>payslips := ps\<rparr>"] assms(1) by simp

text \<open>
  Claim C3. For a run whose organization has no active tax configuration,
  \<open>process_payroll\<close> raises the error \<^verbatim>\<open>Tax configuration not found for
  organization\<close> to its caller, leaves the run with status \<open>FAILED\<close> and
  creates no payslip, whatever the employees of the organization are.
\<close>

theorem C3_missing_tax_configuration:
  assumes "filter (\<lambda>r. run_id r = k) (payroll_runs d) = [found]"
    and "active_tax_configs d found = []"
  shows "process_payroll w d k =
           (commit_run d (found\<lparr>run_status := FAILED\<rparr>),
            Inl (ValueError ''Tax configuration not found for organization'')) \<and>
         payslips (fst (process_payroll w d k)) = payslips d \<and>
         filter (\<lambda>r. run_id r = k) (payroll_runs (fst (process_payroll w d k))) =
           [found\<lparr>run_status := FAILED\<rparr>]"
proof -
  have "process_payroll_try w (commit_run d (found\<lparr>run_status := PROCESSING\<rparr>))
          (found\<lparr>run_status := PROCESSING\<rparr>) =
        (commit_run d (found\<lparr>run_status := PROCESSING\<rparr>),
         Inl (ValueError ''Tax configuration not found for organization''))"
    using assms(2) by (simp add: process_payroll_try_def scalar_one_or_none_def)
  then have res: "process_payroll w d k =
           (commit_run d (found\<lparr>run_status := FAILED\<rparr>),
            Inl (ValueError ''Tax configuration not found for organization''))"
    by (simp add: process_payroll_found [OF assms(1)] commit_run_again)
  have key: "run_id (found\<lparr>run_status := FAILED\<rparr>) = k"
    using found_key [OF assms(1)] by simp
  have "filter (\<lambda>x. run_id x = k) (payroll_runs (commit_run d (found\<lparr>run_status := FAILED\<rparr>))) =
        [found\<lparr>run_status := FAILED\<rparr>]"
    using commit_run_lookup [OF key, of d] assms(1) by simp
  then show ?thesis using res by simp
qed

lemma no_tax_db_run: "filter (\<lambda>r. run_id r = 1) (payroll_runs no_tax_db) = [run1]"
  by (simp add: no_tax_db_def example_db_def run1_def)

lemma no_tax_db_configs: "active_tax_configs no_tax_db run1 = []"
  by (simp add: no_tax_db_def example_db_def active_tax_configs_def)

theorem C3_missing_tax_configuration_witness:
  "filter (\<lambda>r. run_id r = 1) (payroll_runs no_tax_db) = [run1] \<and>
   active_tax_configs no_tax_db run1 = [] \<and>
   length (employees no_tax_db) = 5 \<and>
   snd (process_payroll world0 no_tax_db 1) =
     Inl (ValueError ''Tax configuration not found for organization'') \<and>
   payslips (fst (process_payroll world0 no_tax_db 1)) = [] \<and>
   map run_status (filter (\<lambda>r. run_id r = 1)
     (payroll_runs (fst (process_payroll world0 no_tax_db 1)))) = [FAILED]"
proof -
  note t = C3_missing_tax_configuration [OF no_tax_db_run no_tax_db_configs, of world0]
  have "snd (process_payroll world0 no_tax_db 1) =
     Inl (ValueError ''Tax configuration not found for organization'')"
    using t [THEN conjunct1] by simp
  moreover have "payslips (fst (process_payroll world0 no_tax_db 1)) = []"
    using t [THEN conjunct2, THEN conjunct1] by (simp add: no_tax_db_def example_db_def)
  moreover have "map run_status (filter (\<lambda>r. run_id r = 1)
     (payroll_runs (fst (process_payroll world0 no_tax_db 1)))) = [FAILED]"
    using t [THEN conjunct2, THEN conjunct2] by simp
  moreover have "length (employees no_tax_db) = 5"
    by (simp add: no_tax_db_def example_db_def)
  ultimately show ?thesis
    using no_tax_db_run no_tax_db_configs by simp
qed

text \<open>
  Claim C10. The payslips are committed one by one inside the loop. When the
  first \<open>length es1\<close> employees are processed (each has a computed payslip,
  and the database takes the commit of the payment fields of those who have
  a bank account) and the next one raises, the database that
  \<open>process_payroll\<close> leaves is the one at the moment of the failure, with
  those payslips in the payslip table, and with nothing changed but the status
  of the run, which is \<open>FAILED\<close>: the payslips of a failed run stay, each
  with the key of that run.
\<close>

theorem C10_committed_payslips_survive_failure:
  assumes "filter (\<lambda>r. run_id r = k) (payroll_runs d) = [found]"
    and "active_tax_configs d found = [tc]"
    and "run_employees d found = es1 @ e # es2"
    and "\<forall>x\<in>set es1. \<exists>p. employee_payslip d x found tc = Inr p"
    and "employee_payslip d e found tc = Inl err"
    and "\<forall>x\<in>set es1. truthy (bank_account_id x) \<longrightarrow>
           (\<forall>p. ps_employee_id p = emp_id x \<longrightarrow> \<not> payment_commit_fails w p)"
  shows "\<exists>ps. fst (process_payroll w d k) =
               commit_run (d\<lparr>payslips := payslips d @ ps\<rparr>) (found\<lparr>run_status := FAILED\<rparr>) \<and>
             payslips (fst (process_payroll w d k)) = payslips d @ ps \<and>
             length ps = length es1 \<and>
             map ps_employee_id ps = map emp_id es1 \<and>
             map payroll_run_id ps = map (\<lambda>x. k) es1 \<and>
             filter (\<lambda>r. run_id r = k) (payroll_runs (fst (process_payroll w d k))) =
               [found\<lparr>run_status := FAILED\<rparr>]"
proof -
  obtain ps where res: "process_payroll w d k =
        (commit_run (d\<lparr>payslips := payslips d @ ps\<rparr>) (found\<lparr>run_status := FAILED\<rparr>), Inl err)"
    and wfs: "map without_followup ps =
        map (\<lambda>x. payslip_columns (projr (employee_payslip d x found tc))) es1"
    using process_payroll_failure [OF assms(1-4) assms(6) assms(5)] by blast
  have key: "run_id found = k" by (rule found_key [OF assms(1)])
  note rows = payslips_of_employees [OF wfs assms(4)]
  have "filter (\<lambda>r. run_id r = k)
          (payroll_runs (commit_run (d\<lparr>payslips := payslips d @ ps\<rparr>) (found\<lparr>run_status := FAILED\<rparr>))) =
        [found\<lparr>run_status := FAILED\<rparr>]"
    by (rule run_row_after_commit [OF assms(1)]) (simp add: key)
  then show ?thesis using res rows key by auto
qed

theorem C10_committed_payslips_survive_failure_witness:
  "filter (\<lambda>r. run_id r = 1) (payroll_runs example_db) = [run1] \<and>
   active_tax_configs example_db run1 = [reference_rates] \<and>
   run_employees example_db run1 = [employee1, employee2] @ employee3 # [employee4, employee5] \<and>
   employee_payslip example_db employee3 run1 reference_rates = Inl TypeError \<and>
   map ps_employee_id (payslips (fst (process_payroll world0 example_db 1))) = [1, 2] \<and>
   map payroll_run_id (payslips (fst (process_payroll world0 example_db 1))) = [1, 1] \<and>
   map run_status (filter (\<lambda>r. run_id r = 1)
     (payroll_runs (fst (process_payroll world0 example_db 1)))) = [FAILED]"
proof -
  obtain ps where ps: "payslips (fst (process_payroll world0 example_db 1)) =
        payslips example_db @ ps"
    and emp: "map ps_employee_id ps = map emp_id [employee1, employee2]"
    and run: "map payroll_run_id ps = map (\<lambda>x. 1) [employee1, employee2]"
    and row: "filter (\<lambda>r. run_id r = 1) (payroll_runs (fst (process_payroll world0 example_db 1))) =
               [run1\<lparr>run_status := FAILED\<rparr>]"
    using C10_committed_payslips_survive_failure [OF example_db_run example_db_configs
        example_db_employees example_db_before_failure employee3_fails example_db_taken]
    by blast
  have "payslips example_db = []" by (simp add: example_db_def)
  then have "map ps_employee_id (payslips (fst (process_payroll world0 example_db 1))) = [1, 2]"
    and "map payroll_run_id (payslips (fst (process_payroll world0 example_db 1))) = [1, 1]"
    using ps emp run by (simp_all add: employee1_def employee2_def)
  moreover have "map run_status (filter (\<lambda>r. run_id r = 1)
     (payroll_runs (fst (process_payroll world0 example_db 1)))) = [FAILED]"
    using row by simp
  ultimately show ?thesis
    using example_db_run example_db_configs example_db_employees employee3_fails by simp
qed

section \<open>A failing employee fails the run\<close>

lemma C1_example_run:
  "snd (process_payroll world0 example_db 1) = Inl TypeError \<and>
   map run_status (filter (\<lambda>r. run_id r = 1)
     (payroll_runs (fst (process_payroll world0 example_db 1)))) = [FAILED] \<and>
   map ps_employee_id (payslips (fst (process_payroll world0 example_db 1))) = [1, 2]"
proof -
  obtain ps where res: "process_payroll world0 example_db 1 =
        (commit_run (example_db\<lparr>payslips := payslips example_db @ ps\<rparr>)
           (run1\<lparr>run_status := FAILED\<rparr>), Inl TypeError)"
    and wfs: "map without_followup ps =
        map (\<lambda>x. payslip_columns (projr (employee_payslip example_db x run1 reference_rates)))
          [employee1, employee2]"
    using process_payroll_failure [OF example_db_run example_db_configs example_db_employees
        example_db_before_failure example_db_taken employee3_fails]
    by blast
  note rows = payslips_of_employees [OF wfs example_db_before_failure]
  have "filter (\<lambda>r. run_id r = 1)
          (payroll_runs (commit_run (example_db\<lparr>payslips := payslips example_db @ ps\<rparr>)
             (run1\<lparr>run_status := FAILED\<rparr>))) = [run1\<lparr>run_status := FAILED\<rparr>]"
    by (rule run_row_after_commit [OF example_db_run]) (simp add: run1_def)
  moreover have "payslips example_db = []" by (simp add: example_db_def)
  ultimately show ?thesis
    using res rows by (simp add: employee1_def employee2_def)
qed

text \<open>
  Claim C1, as stated, fails. In the run of five employees in which employee 3
  has no hourly rate, \<open>process_payroll\<close> raises the \<^verbatim>\<open>TypeError\<close> of employee
  3 to its caller; the run ends with status \<open>FAILED\<close>, not \<open>COMPLETED\<close>; the
  payslips of employees 1 and 2 exist and none is created for employees 4 and
  5, although both can be processed.
\<close>

theorem C1_counterexample:
  "run_employees example_db run1 = [employee1, employee2] @ employee3 # [employee4, employee5] \<and>
   hourly_rate employee3 = None \<and>
   snd (process_payroll world0 example_db 1) = Inl TypeError \<and>
   map run_status (filter (\<lambda>r. run_id r = 1)
     (payroll_runs (fst (process_payroll world0 example_db 1)))) = [FAILED] \<and>
   map ps_employee_id (payslips (fst (process_payroll world0 example_db 1))) = [1, 2]"
  using C1_example_run example_db_employees by (simp add: employee3_def)

text \<open>
  Claim C1, amended. The loop over the employees has no handler of its own.
  When the employees \<open>es1\<close> are processed and the next employee raises
  \<open>err\<close> before its payslip is committed (the aggregation, the pay
  computation or the tax calculation raises, as with an hourly employee
  without an hourly rate), \<open>process_payroll\<close> raises \<open>err\<close> to its caller; the
  row of the run is the one found at the start with status \<open>FAILED\<close> (its
  totals are not written); the payslip table holds the old payslips followed
  by one payslip for each employee of \<open>es1\<close>, and none for the failing
  employee or for those after it. An exception raised after the payslip of an
  employee is committed is not the subject of this statement.
\<close>

theorem C1_employee_failure_fails_the_run:
  assumes "filter (\<lambda>r. run_id r = k) (payroll_runs d) = [found]"
    and "active_tax_configs d found = [tc]"
    and "run_employees d found = es1 @ e # es2"
    and "\<forall>x\<in>set es1. \<exists>p. employee_payslip d x found tc = Inr p"
    and "\<forall>x\<in>set es1. truthy (bank_account_id x) \<longrightarrow>
           (\<forall>p. ps_employee_id p = emp_id x \<longrightarrow> \<not> payment_commit_fails w p)"
    and "employee_payslip d e found tc = Inl err"
  shows "snd (process_payroll w d k) = Inl err \<and>
         filter (\<lambda>r. run_id r = k) (payroll_runs (fst (process_payroll w d k))) =
           [found\<lparr>run_status := FAILED\<rparr>] \<and>
         take (length (payslips d)) (payslips (fst (process_payroll w d k))) = payslips d \<and>
         map ps_employee_id (drop (length (payslips d)) (payslips (fst (process_payroll w d k)))) =
           map emp_id es1"
proof -
  obtain ps where res: "process_payroll w d k =
        (commit_run (d\<lparr>payslips := payslips d @ ps\<rparr>) (found\<lparr>run_status := FAILED\<rparr>), Inl err)"
    and wfs: "map without_followup ps =
        map (\<lambda>x. payslip_columns (projr (employee_payslip d x found tc))) es1"
    using process_payroll_failure [OF assms] by blast
  have key: "run_id found = k" by (rule found_key [OF assms(1)])
  note rows = payslips_of_employees [OF wfs assms(4)]
  have "filter (\<lambda>r. run_id r = k)
          (payroll_runs (commit_run (d\<lparr>payslips := payslips d @ ps\<rparr>) (found\<lparr>run_status := FAILED\<rparr>))) =
        [found\<lparr>run_status := FAILED\<rparr>]"
    by (rule run_row_after_commit [OF assms(1)]) (simp add: key)
  then show ?thesis using res rows by simp
qed

lemma two_db_run: "filter (\<lambda>r. run_id r = 1) (payroll_runs two_db) = [run1]"
  by (simp add: two_db_def example_db_def run1_def)

lemma two_db_configs: "active_tax_configs two_db run1 = [reference_rates]"
  by (simp add: two_db_def example_db_def active_tax_configs_def reference_rates_def run1_def)

lemma two_db_employees: "run_employees two_db run1 = [employee2] @ employee3 # []"
  by (simp add: two_db_def example_db_def run_employees_def run1_def employee2_def employee3_def)

lemma two_db_payslip:
  "employee_payslip two_db e run1 reference_rates =
   employee_payslip example_db e run1 reference_rates"
  by (rule employee_payslip_tables) (simp add: two_db_def)

lemma two_db_before_failure:
  "\<forall>x\<in>set [employee2]. \<exists>p. employee_payslip two_db x run1 reference_rates = Inr p"
  using employee2_ok by (simp add: two_db_payslip)

lemma two_db_failure: "employee_payslip two_db employee3 run1 reference_rates = Inl TypeError"
  using employee3_fails by (simp add: two_db_payslip)

lemma two_db_taken:
  "\<forall>x\<in>set [employee2]. truthy (bank_account_id x) \<longrightarrow>
     (\<forall>p. ps_employee_id p = emp_id x \<longrightarrow> \<not> payment_commit_fails world0 p)"
  by simp

theorem C1_employee_failure_fails_the_run_witness:
  "filter (\<lambda>r. run_id r = 1) (payroll_runs two_db) = [run1] \<and>
   active_tax_configs two_db run1 = [reference_rates] \<and>
   run_employees two_db run1 = [employee2] @ employee3 # [] \<and>
   employee_payslip two_db employee3 run1 reference_rates = Inl TypeError \<and>
   snd (process_payroll world0 two_db 1) = Inl TypeError \<and>
   filter (\<lambda>r. run_id r = 1) (payroll_runs (fst (process_payroll world0 two_db 1))) =
     [run1\<lparr>run_status := FAILED\<rparr>] \<and>
   map ps_employee_id (payslips (fst (process_payroll world0 two_db 1))) = [2]"
proof -
  note t = C1_employee_failure_fails_the_run [OF two_db_run two_db_configs two_db_employees
      two_db_before_failure two_db_taken two_db_failure]
  have "payslips two_db = []" by (simp add: two_db_def example_db_def)
  then have "map ps_employee_id (payslips (fst (process_payroll world0 two_db 1))) = [2]"
    using t [THEN conjunct2, THEN conjunct2, THEN conjunct2] by (simp add: employee2_def)
  then show ?thesis
    using t [THEN conjunct1] t [THEN conjunct2, THEN conjunct1]
      two_db_run two_db_configs two_db_employees two_db_failure
    by simp
qed
section \<open>The status of the run is not checked\<close>

lemma employee_payslip_run_fields:
  assumes "run_id r' = run_id r" and "pay_period_start r' = pay_period_start r"
    and "pay_period_end r' = pay_period_end r" and "pay_date r' = pay_date r"
  shows "employee_payslip d e r' tc = employee_payslip d e r tc"
  unfolding employee_payslip_def eligible_timesheets_def compute_pay_def new_payslip_def assms
  by (rule refl)

lemma process_payroll_not_found:
  assumes "filter (\<lambda>r. run_id r = k) (payroll_runs d) = []"
  shows "process_payroll w d k = (d, Inl (ValueError ''Payroll run not found''))"
  using assms by (simp add: process_payroll_def scalar_one_or_none_def)

lemma process_payroll_any_status:
  assumes "filter (\<lambda>r. run_id r = k) (payroll_runs d) = [found]"
  shows "process_payroll w (commit_run d (found\<lparr>run_status := s\<rparr>)) k = process_payroll w d k"
proof -
  have key: "run_id (found\<lparr>run_status := s\<rparr>) = k"
    using found_key [OF assms] by simp
  have row: "filter (\<lambda>r. run_id r = k) (payroll_runs (commit_run d (found\<lparr>run_status := s\<rparr>))) =
      [found\<lparr>run_status := s\<rparr>]"
    using commit_run_lookup [OF key, of d] assms by simp
  show ?thesis
    by (simp add: process_payroll_found [OF row] process_payroll_found [OF assms] commit_run_again
        split: prod.splits sum.splits)
qed

lemma completed_db_run: "filter (\<lambda>r. run_id r = 1) (payroll_runs completed_db) = [run_done]"
  by (simp add: completed_db_def example_db_def run_done_def run1_def)

lemma completed_db_configs: "active_tax_configs completed_db run_done = [reference_rates]"
  by (simp add: completed_db_def example_db_def active_tax_configs_def reference_rates_def
      run_done_def run1_def)

lemma completed_db_employees: "run_employees completed_db run_done = [employee2]"
  by (simp add: completed_db_def example_db_def run_employees_def run_done_def run1_def
      employee2_def)

lemma completed_db_payslip:
  "employee_payslip completed_db employee2 run_done reference_rates =
   Inr (new_payslip employee2 run1 (Dec 0 0, Dec 0 0)
          (Dec 140000 (- 2), Dec 0 0, Dec 140000 (- 2))
          \<lparr>tx_federal_tax = Dec 30800 (- 2), tx_state_tax = Dec 7000 (- 2),
           tx_social_security = Dec 8680 (- 2), tx_medicare = Dec 2030 (- 2),
           tx_total_deductions = Dec 48510 (- 2), tx_net_pay = Dec 91490 (- 2)\<rparr>)"
proof -
  have "calculate_taxes (Dec 140000 (- 2)) reference_rates =
     Inr \<lparr>tx_federal_tax = Dec 30800 (- 2), tx_state_tax = Dec 7000 (- 2),
          tx_social_security = Dec 8680 (- 2), tx_medicare = Dec 2030 (- 2),
          tx_total_deductions = Dec 48510 (- 2), tx_net_pay = Dec 91490 (- 2)\<rparr>"
    by code_simp
  then have "employee_payslip example_db employee2 run1 reference_rates =
     Inr (new_payslip employee2 run1 (Dec 0 0, Dec 0 0)
          (Dec 140000 (- 2), Dec 0 0, Dec 140000 (- 2))
          \<lparr>tx_federal_tax = Dec 30800 (- 2), tx_state_tax = Dec 7000 (- 2),
           tx_social_security = Dec 8680 (- 2), tx_medicare = Dec 2030 (- 2),
           tx_total_deductions = Dec 48510 (- 2), tx_net_pay = Dec 91490 (- 2)\<rparr>)"
    using employee_payslip_eval [OF hours2, of _ reference_rates] pay2 by simp
  moreover have "employee_payslip completed_db employee2 run_done reference_rates =
      employee_payslip completed_db employee2 run1 reference_rates"
    by (rule employee_payslip_run_fields) (simp_all add: run_done_def)
  moreover have "employee_payslip completed_db employee2 run1 reference_rates =
      employee_payslip example_db employee2 run1 reference_rates"
    by (rule employee_payslip_tables) (simp add: completed_db_def)
  ultimately show ?thesis by simp
qed

lemma completed_db_processed_again:
  "snd (process_payroll world0 completed_db 1) =
     Inr \<lparr>sm_payroll_run_id = 1, sm_status = ''completed'', sm_total_employees = 1,
          sm_total_gross_pay = Dec 140000 (- 2), sm_total_net_pay = Dec 91490 (- 2),
          sm_total_taxes = Dec 48510 (- 2)\<rparr> \<and>
   map ps_employee_id (payslips (fst (process_payroll world0 completed_db 1))) = [2, 2] \<and>
   map payroll_run_id (payslips (fst (process_payroll world0 completed_db 1))) = [1, 1]"
proof -
  have ok: "\<forall>x\<in>set (run_employees completed_db run_done).
      \<exists>p. employee_payslip completed_db x run_done reference_rates = Inr p"
    using completed_db_payslip by (simp add: completed_db_employees)
  obtain ps g n t where res: "process_payroll world0 completed_db 1 =
             (commit_run (completed_db\<lparr>payslips := payslips completed_db @ ps\<rparr>)
                (run_done\<lparr>total_gross_pay := g, total_net_pay := n, total_taxes := t,
                   run_status := COMPLETED, processed_at := Some (utcnow world0)\<rparr>),
              Inr \<lparr>sm_payroll_run_id = 1, sm_status = ''completed'',
                   sm_total_employees = length (run_employees completed_db run_done),
                   sm_total_gross_pay = g, sm_total_net_pay = n, sm_total_taxes = t\<rparr>)"
    and wfs: "map without_followup ps =
             map (\<lambda>x. payslip_columns
                    (projr (employee_payslip completed_db x run_done reference_rates)))
               (run_employees completed_db run_done)"
    and gnt: "(g, n, t) = foldl add_totals (Dec 0 0, Dec 0 0, Dec 0 0) ps"
    using process_payroll_success [OF completed_db_run completed_db_configs ok, of world0]
    by auto
  note rows = payslips_of_employees [OF wfs ok]
  have "foldl add_totals (Dec 0 0, Dec 0 0, Dec 0 0) ps =
        foldl add_totals (Dec 0 0, Dec 0 0, Dec 0 0) (map without_followup ps)"
    by (simp add: foldl_add_totals_followup)
  also have "\<dots> = (dadd (Dec 0 0) (column 2 (Dec 140000 (- 2))),
      dadd (Dec 0 0) (column 2 (Dec 91490 (- 2))), dadd (Dec 0 0) (column 2 (Dec 48510 (- 2))))"
    unfolding wfs
    by (simp add: completed_db_employees completed_db_payslip new_payslip_def
        payslip_columns_amounts)
  also have "\<dots> = (Dec 140000 (- 2), Dec 91490 (- 2), Dec 48510 (- 2))"
    by code_simp
  finally have gnt': "g = Dec 140000 (- 2)" "n = Dec 91490 (- 2)" "t = Dec 48510 (- 2)"
    using gnt by simp_all
  have "snd (process_payroll world0 completed_db 1) =
     Inr \<lparr>sm_payroll_run_id = 1, sm_status = ''completed'', sm_total_employees = 1,
          sm_total_gross_pay = Dec 140000 (- 2), sm_total_net_pay = Dec 91490 (- 2),
          sm_total_taxes = Dec 48510 (- 2)\<rparr>"
    unfolding res using gnt' by (simp add: completed_db_employees)
  moreover have ps: "payslips (fst (process_payroll world0 completed_db 1)) = payslip_done # ps"
    unfolding res by (simp add: completed_db_def)
  have "map ps_employee_id (payslips (fst (process_payroll world0 completed_db 1))) = [2, 2]"
    and "map payroll_run_id (payslips (fst (process_payroll world0 completed_db 1))) = [1, 1]"
    unfolding ps using rows [unfolded completed_db_employees] found_key [OF completed_db_run]
    by (simp_all add: employee2_def payslip_done_def)
  ultimately show ?thesis by simp
qed

text \<open>
  Claim C2, as stated, fails. The run of \<open>completed_db\<close> has status
  \<open>COMPLETED\<close> and a payslip for employee 2. \<open>process_payroll\<close> does not
  reject the request: it returns a summary with status \<^verbatim>\<open>completed\<close> and
  leaves a second payslip for the same employee and the same run.
\<close>

theorem C2_counterexample:
  "map run_status (filter (\<lambda>r. run_id r = 1) (payroll_runs completed_db)) = [COMPLETED] \<and>
   map ps_employee_id (payslips completed_db) = [2] \<and>
   snd (process_payroll world0 completed_db 1) =
     Inr \<lparr>sm_payroll_run_id = 1, sm_status = ''completed'', sm_total_employees = 1,
          sm_total_gross_pay = Dec 140000 (- 2), sm_total_net_pay = Dec 91490 (- 2),
          sm_total_taxes = Dec 48510 (- 2)\<rparr> \<and>
   map ps_employee_id (payslips (fst (process_payroll world0 completed_db 1))) = [2, 2] \<and>
   map payroll_run_id (payslips (fst (process_payroll world0 completed_db 1))) = [1, 1]"
  using completed_db_processed_again completed_db_run
  by (simp add: run_done_def completed_db_def payslip_done_def)

text \<open>
  Claim C2, amended. \<open>process_payroll\<close> never looks at the status of the run
  it has found: it sets the status to \<open>PROCESSING\<close>, commits and runs the body,
  and the result is the same whatever status \<open>s\<close> the run had before. The only
  request that is rejected without a change of state is one for a run that
  does not exist.
\<close>

theorem C2_status_not_checked:
  assumes "filter (\<lambda>r. run_id r = k) (payroll_runs d) = [found]"
    and "filter (\<lambda>r. run_id r = k') (payroll_runs d) = []"
  shows "process_payroll w (commit_run d (found\<lparr>run_status := s\<rparr>)) k = process_payroll w d k \<and>
         process_payroll w d k =
           (case process_payroll_try w (commit_run d (found\<lparr>run_status := PROCESSING\<rparr>))
                   (found\<lparr>run_status := PROCESSING\<rparr>) of
              (d2, Inr summary) \<Rightarrow> (d2, Inr summary)
            | (d2, Inl err) \<Rightarrow> (commit_run d2 (found\<lparr>run_status := FAILED\<rparr>), Inl err)) \<and>
         process_payroll w d k' = (d, Inl (ValueError ''Payroll run not found''))"
  using process_payroll_any_status [OF assms(1)] process_payroll_found [OF assms(1)]
    process_payroll_not_found [OF assms(2)]
  by simp

lemma completed_db_no_run_2: "filter (\<lambda>r. run_id r = 2) (payroll_runs completed_db) = []"
  by (simp add: completed_db_def run_done_def run1_def)

theorem C2_status_not_checked_witness:
  "filter (\<lambda>r. run_id r = 1) (payroll_runs completed_db) = [run_done] \<and>
   filter (\<lambda>r. run_id r = 2) (payroll_runs completed_db) = [] \<and>
   run_status run_done = COMPLETED \<and>
   process_payroll world0 (commit_run completed_db (run_done\<lparr>run_status := PENDING\<rparr>)) 1 =
     process_payroll world0 completed_db 1 \<and>
   process_payroll world0 completed_db 2 =
     (completed_db, Inl (ValueError ''Payroll run not found''))"
proof -
  note t = C2_status_not_checked [OF completed_db_run completed_db_no_run_2,
      of world0 PENDING]
  show ?thesis
    using t [THEN conjunct1] t [THEN conjunct2, THEN conjunct2]
      completed_db_run completed_db_no_run_2
    by (simp add: run_done_def)
qed

section \<open>Creating a run twice\<close>

lemma create_payroll_run_Inr:
  assumes "create_payroll_run d u req = (d1, Inr r)"
  shows "''admin'' \<in> set (groups u) \<and> filter (same_period req) (payroll_runs d) = [] \<and>
         d1 = d\<lparr>payroll_runs := payroll_runs d @ [r]\<rparr> \<and> same_period req r \<and>
         run_status r = PENDING"
proof -
  have admin: "''admin'' \<in> set (groups u)"
    using assms by (auto simp: create_payroll_run_def split: if_splits)
  show ?thesis
  proof (cases "filter (same_period req) (payroll_runs d)")
    case Nil
    then show ?thesis
      using assms admin
      by (auto simp: create_payroll_run_def scalar_one_or_none_def same_period_def Let_def)
  next
    case (Cons x xs)
    then have False
      using assms admin
      by (cases xs) (auto simp: create_payroll_run_def scalar_one_or_none_def)
    then show ?thesis ..
  qed
qed

text \<open>
  Claim C9. When a first request has created the run \<open>r\<close>, a second request of
  an administrator for the same organization and the same period (whatever its
  pay date) fails with the error \<^verbatim>\<open>Payroll run already exists for this
  period\<close> and leaves the database as it is, in which \<open>r\<close> is the only run of
  that organization and period.
\<close>

theorem C9_duplicate_run_rejected:
  assumes "create_payroll_run d u req = (d1, Inr r)"
    and "prc_org_id req' = prc_org_id req"
    and "prc_pay_period_start req' = prc_pay_period_start req"
    and "prc_pay_period_end req' = prc_pay_period_end req"
    and "''admin'' \<in> set (groups u')"
  shows "create_payroll_run d1 u' req' =
           (d1, Inl (HTTPException 400 ''Payroll run already exists for this period'')) \<and>
         filter (same_period req) (payroll_runs d1) = [r] \<and>
         payroll_runs d1 = payroll_runs d @ [r]"
proof -
  note first = create_payroll_run_Inr [OF assms(1)]
  have same: "same_period req' = same_period req"
    using assms(2-4) by (simp add: same_period_def fun_eq_iff)
  have rows: "filter (same_period req) (payroll_runs d1) = [r]"
    using first by simp
  then have "create_payroll_run d1 u' req' =
           (d1, Inl (HTTPException 400 ''Payroll run already exists for this period''))"
    using assms(5) by (simp add: create_payroll_run_def same scalar_one_or_none_def)
  then show ?thesis using rows first by simp
qed

lemma first_creation:
  "create_payroll_run no_runs_db admin_user request1 = (example_db, Inr run1)"
  by (simp add: create_payroll_run_def no_runs_db_def admin_user_def request1_def
      scalar_one_or_none_def next_id_def run1_def example_db_def Let_def)

theorem C9_duplicate_run_rejected_witness:
  "create_payroll_run no_runs_db admin_user request1 = (example_db, Inr run1) \<and>
   prc_pay_date request1_again \<noteq> prc_pay_date request1 \<and>
   create_payroll_run example_db admin_user request1_again =
     (example_db, Inl (HTTPException 400 ''Payroll run already exists for this period'')) \<and>
   filter (same_period request1) (payroll_runs example_db) = [run1] \<and>
   payroll_runs example_db = [run1]"
proof -
  have admin: "''admin'' \<in> set (groups admin_user)" by (simp add: admin_user_def)
  have same: "prc_org_id request1_again = prc_org_id request1"
    "prc_pay_period_start request1_again = prc_pay_period_start request1"
    "prc_pay_period_end request1_again = prc_pay_period_end request1"
    by (simp_all add: request1_again_def)
  note t = C9_duplicate_run_rejected [OF first_creation same admin]
  have "create_payroll_run example_db admin_user request1_again =
     (example_db, Inl (HTTPException 400 ''Payroll run already exists for this period''))"
    and "filter (same_period request1) (payroll_runs example_db) = [run1]"
    using t [THEN conjunct1] t [THEN conjunct2, THEN conjunct1] by simp_all
  moreover have "prc_pay_date request1_again \<noteq> prc_pay_date request1"
    by (simp add: request1_again_def request1_def day_def)
  moreover have "payroll_runs example_db = [run1]" by (simp add: example_db_def)
  ultimately show ?thesis using first_creation by simp
qed

section \<open>A failure in the payment step\<close>





lemma payslip1:
  "employee_payslip example_db employee1 run1 reference_rates =
     Inr (new_payslip employee1 run1 (Dec 4000 (- 2), Dec 1000 (- 2))
            (Dec 10000000 (- 4), Dec 37500000 (- 5), Dec 137500000 (- 5))
            \<lparr>tx_federal_tax = Dec 30250 (- 2), tx_state_tax = Dec 6875 (- 2),
             tx_social_security = Dec 8525 (- 2), tx_medicare = Dec 1994 (- 2),
             tx_total_deductions = Dec 47644 (- 2), tx_net_pay = Dec 89856 (- 2)\<rparr>)"
  using employee_payslip_eval [OF hours1, of _ reference_rates] pay1 tax1 by simp










section \<open>When the Decimal operations are exact\<close>






lemma dneg_scaled [simp]: "scaled s (dneg a) = - scaled s a" "expo (dneg a) = expo a"
  by (simp_all add: dneg_def scaled_def)




section \<open>The accuracy of the Decimal operations\<close>















section \<open>What a column stores\<close>


lemma column_expo [simp]: "expo (column s x) = - int s"
  by (simp add: column_def)

lemma column_same: "expo x = - int s \<Longrightarrow> column s x = x"
  by (cases x) (simp add: column_def)





section \<open>Gross pay\<close>























section \<open>Time aggregation\<close>































end
